theory Spec2Isabelle
  imports Complex_Main
begin

section \<open>The rate limiter of \<open>src/api/claude-proxy.ts\<close>\<close>

text \<open>
  \<open>rateLimitStore\<close> is a process-wide \<open>Map<string, {count, resetTime}>\<close>. The model
  passes the store explicitly: \<open>checkRateLimit\<close> takes the store and returns the verdict
  together with the store after the call. \<open>current.count++\<close> mutates the object the map
  holds, so it is an update of the entry stored under \<open>clientId\<close>.

  \<open>limit\<close> and \<open>window\<close> are the integers that \<open>parseInt\<close> reads from
  \<open>RATE_LIMIT_REQUESTS\<close> and \<open>RATE_LIMIT_WINDOW_MS\<close> (defaults 100 and 60000), and
  \<open>now\<close> is the value of \<open>Date.now()\<close>; a configuration that parses to NaN is outside
  this model.

  The numbers of the code are IEEE doubles. Every value here is an integer that a double
  holds, comparisons of doubles are exact, and \<open>+\<close> rounds the exact sum to the nearest
  double, ties to the even significand: \<open>js_add\<close>. Below \<open>2^53\<close> in absolute value the
  sum is exact; above, the sum moves to a neighbouring multiple of a power of two, so that
  \<open>count++\<close> stops growing at \<open>2^53\<close>. \<open>bits m\<close> is the length of \<open>m\<close> in binary digits.
  A sum at or beyond \<open>2^1024\<close>, which the code holds as \<open>Infinity\<close>, is outside this
  model.
\<close>

fun bits :: "nat \<Rightarrow> nat" where
  "bits n = (if n = 0 then 0 else Suc (bits (n div 2)))"

declare bits.simps [simp del]

definition round_double :: "int \<Rightarrow> int" where
  "round_double x =
     (let m = nat \<bar>x\<bar>;
          q = 2 ^ (bits m - 53);
          lo = (m div q) * q;
          r = m mod q
      in sgn x * int (if 2 * r < q then lo
                      else if q < 2 * r then lo + q
                      else if even (m div q) then lo
                      else lo + q))"

definition js_add :: "int \<Rightarrow> int \<Rightarrow> int" where
  "js_add a b = round_double (a + b)"

record rl_entry =
  count :: int
  resetTime :: int

type_synonym rl_store = "string \<rightharpoonup> rl_entry"

definition checkRateLimit :: "int \<Rightarrow> int \<Rightarrow> int \<Rightarrow> rl_store \<Rightarrow> string \<Rightarrow> bool \<times> rl_store" where
  "checkRateLimit limit window now store clientId =
     (case store clientId of
        None \<Rightarrow> (True, store(clientId \<mapsto> \<lparr>count = 1, resetTime = js_add now window\<rparr>))
      | Some current \<Rightarrow>
          if resetTime current < now
          then (True, store(clientId \<mapsto> \<lparr>count = 1, resetTime = js_add now window\<rparr>))
          else if count current < limit
          then (True, store(clientId \<mapsto> current\<lparr>count := js_add (count current) 1\<rparr>))
          else (False, store))"

text \<open>A sequence of calls for one client, each at its own clock reading: the verdicts in
  call order and the store after the last call.\<close>

fun admit_all :: "int \<Rightarrow> int \<Rightarrow> rl_store \<Rightarrow> string \<Rightarrow> int list \<Rightarrow> bool list \<times> rl_store" where
  "admit_all limit window store c [] = ([], store)"
| "admit_all limit window store c (now # nows) =
     (let (ok, store') = checkRateLimit limit window now store c;
          (oks, store'') = admit_all limit window store' c nows
      in (ok # oks, store''))"

section \<open>JavaScript values\<close>

text \<open>
  The handlers receive \<open>req.body\<close> as whatever the platform parsed from the request:
  \<open>undefined\<close> when no body was sent, otherwise a JSON value. \<open>JNum q\<close> holds the value of
  the parsed double; every finite double is a rational, and the comparisons the code makes
  with 1, 4096 and 8192 are exact (a literal that overflows to \<open>Infinity\<close> compares like any
  number above the bound). \<open>JObj\<close> lists the own properties of an object, each key once.
\<close>

datatype jsval =
    JUndefined
  | JNull
  | JBool bool
  | JNum rat
  | JStr string
  | JArr "jsval list"
  | JObj "(string \<times> jsval) list"

text \<open>An \<open>Error\<close> object, by the two properties the handlers read.\<close>

record js_error =
  ename :: string
  emessage :: string

text \<open>The response of the provider that an \<open>AxiosError\<close> carries as \<open>error.response\<close>;
  \<open>headers\<close> has lower-case names, each once.\<close>

record axios_response =
  status :: nat
  headers :: "(string \<times> string) list"
  data :: jsval

text \<open>Reading a property of \<open>undefined\<close> or \<open>null\<close> throws a \<open>TypeError\<close>; the message is
  the wording of the Node.js runtime and no property below depends on it.\<close>

definition cannot_read :: "jsval \<Rightarrow> string \<Rightarrow> js_error" where
  "cannot_read v k =
     \<lparr>ename = ''TypeError'',
      emessage = ''Cannot read properties of '' @
                 (if v = JNull then ''null'' else ''undefined'') @
                 '' (reading '' @ [CHR 0x27] @ k @ [CHR 0x27] @ '')''\<rparr>"

text \<open>
  \<open>getp v k\<close> is the property read \<open>v.k\<close>, for the field names the handlers use
  (\<open>messages\<close>, \<open>role\<close>, \<open>content\<close>, \<open>model\<close>, \<open>max_tokens\<close>, \<open>maxTokens\<close>, \<open>error\<close>,
  \<open>type\<close>, \<open>message\<close>): none of them is a property of an array, a string, a number or a
  boolean, or inherited from \<open>Object.prototype\<close>, so only an object's own properties
  answer. \<open>getp_opt v k\<close> is the optional chain \<open>v?.k\<close>.
\<close>

fun getp :: "jsval \<Rightarrow> string \<Rightarrow> js_error + jsval" where
  "getp JUndefined k = Inl (cannot_read JUndefined k)"
| "getp JNull k = Inl (cannot_read JNull k)"
| "getp (JObj kvs) k = Inr (case map_of kvs k of Some v \<Rightarrow> v | None \<Rightarrow> JUndefined)"
| "getp v k = Inr JUndefined"

definition getp_opt :: "jsval \<Rightarrow> string \<Rightarrow> jsval" where
  "getp_opt v k = (case getp v k of Inl e \<Rightarrow> JUndefined | Inr x \<Rightarrow> x)"

fun truthy :: "jsval \<Rightarrow> bool" where
  "truthy JUndefined = False"
| "truthy JNull = False"
| "truthy (JBool b) = b"
| "truthy (JNum q) = (q \<noteq> 0)"
| "truthy (JStr s) = (s \<noteq> [])"
| "truthy (JArr xs) = True"
| "truthy (JObj kvs) = True"

fun isArray :: "jsval \<Rightarrow> bool" where
  "isArray (JArr xs) = True"
| "isArray v = False"

fun elems :: "jsval \<Rightarrow> jsval list" where
  "elems (JArr xs) = xs"
| "elems v = []"

text \<open>\<open>[...].includes(v)\<close> on an array of string literals: only an equal string is found.\<close>

fun js_includes :: "string list \<Rightarrow> jsval \<Rightarrow> bool" where
  "js_includes xs (JStr s) = (s \<in> set xs)"
| "js_includes xs v = False"

text \<open>\<open>a || b\<close> on values.\<close>

definition js_or :: "jsval \<Rightarrow> jsval \<Rightarrow> jsval" where
  "js_or a b = (if truthy a then a else b)"

fun join :: "string \<Rightarrow> string list \<Rightarrow> string" where
  "join sep [] = []"
| "join sep [x] = x"
| "join sep (x # y # ys) = x @ sep @ join sep (y # ys)"

text \<open>
  \<open>v < n\<close> and \<open>v > n\<close> against a number literal convert \<open>v\<close> to a number first; a NaN
  (\<open>None\<close>) makes both false. The conversion of strings, arrays and objects is the
  runtime's (\<open>ToPrimitive\<close>, then \<open>StringToNumber\<close>), taken as the parameter \<open>tn\<close>. It
  throws a \<open>TypeError\<close> (\<open>Inl\<close>) where \<open>ToPrimitive\<close> finds neither a callable \<open>toString\<close>
  nor a \<open>valueOf\<close> that returns a primitive, as for the JSON object \<open>{"toString": 1}\<close>. An
  infinite result compares like any number beyond the bounds.
\<close>

definition toNumber :: "(jsval \<Rightarrow> js_error + rat option) \<Rightarrow> jsval \<Rightarrow> js_error + rat option" where
  "toNumber tn v =
     (case v of
        JUndefined \<Rightarrow> Inr None
      | JNull \<Rightarrow> Inr (Some 0)
      | JBool b \<Rightarrow> Inr (Some (if b then 1 else 0))
      | JNum q \<Rightarrow> Inr (Some q)
      | _ \<Rightarrow> tn v)"

definition js_lt :: "(jsval \<Rightarrow> js_error + rat option) \<Rightarrow> jsval \<Rightarrow> rat \<Rightarrow> js_error + bool" where
  "js_lt tn v n =
     (case toNumber tn v of
        Inl e \<Rightarrow> Inl e
      | Inr None \<Rightarrow> Inr False
      | Inr (Some q) \<Rightarrow> Inr (q < n))"

definition js_gt :: "(jsval \<Rightarrow> js_error + rat option) \<Rightarrow> jsval \<Rightarrow> rat \<Rightarrow> js_error + bool" where
  "js_gt tn v n =
     (case toNumber tn v of
        Inl e \<Rightarrow> Inl e
      | Inr None \<Rightarrow> Inr False
      | Inr (Some q) \<Rightarrow> Inr (n < q))"

section \<open>The request validator of \<open>src/api/claude-proxy.ts\<close>\<close>

text \<open>
  The file holds two versions of the proxy. They differ in the constants collected here:
  the allow-list of models, the upper bound on \<open>max_tokens\<close> with its message, and the
  message of the 504 answer. \<open>version2\<close> tells the second version, which logs through
  \<open>log()\<close> and reads the fields it logs before it goes on.
\<close>

record variant =
  allowedModels :: "string list"
  maxTokensLimit :: rat
  maxTokensError :: string
  timeoutError :: string
  version2 :: bool

definition variant1 :: variant where
  "variant1 =
     \<lparr>allowedModels =
        [''claude-3-5-sonnet-20241022'',
         ''claude-3-5-sonnet-20240620'',
         ''claude-3-opus-20240229'',
         ''claude-3-sonnet-20240229'',
         ''claude-3-haiku-20240307''],
      maxTokensLimit = 4096,
      maxTokensError = ''max_tokens must be between 1 and 4096'',
      timeoutError = ''Claude API request timed out after 30 seconds'',
      version2 = False\<rparr>"

definition variant2 :: variant where
  "variant2 =
     \<lparr>allowedModels =
        [''claude-sonnet-4-5-20250929'',
         ''claude-haiku-4-5-20251001'',
         ''claude-opus-4-1-20250805'',
         ''claude-sonnet-4-20250514'',
         ''claude-opus-4-20250514'',
         ''claude-3-7-sonnet-20250219'',
         ''claude-3-5-haiku-20241022'',
         ''claude-3-haiku-20240307''],
      maxTokensLimit = 8192,
      maxTokensError = ''max_tokens must be between 1 and 8192'',
      timeoutError = ''Claude API request timed out after 60 seconds'',
      version2 = True\<rparr>"

text \<open>The result \<open>{ valid: boolean; error?: string }\<close>.\<close>

record validation =
  valid :: bool
  error :: "string option"

definition ok_result :: validation where
  "ok_result = \<lparr>valid = True, error = None\<rparr>"

definition invalid :: "string \<Rightarrow> validation" where
  "invalid reason = \<lparr>valid = False, error = Some reason\<rparr>"

text \<open>
  The loop \<open>for (const msg of body.messages)\<close>: \<open>Inl\<close> when a property read throws,
  \<open>Inr (Some r)\<close> when the loop returns \<open>r\<close>, \<open>Inr None\<close> when it runs to its end.
\<close>

fun check_messages :: "jsval list \<Rightarrow> js_error + validation option" where
  "check_messages [] = Inr None"
| "check_messages (msg # rest) =
     (case getp msg ''role'' of
        Inl e \<Rightarrow> Inl e
      | Inr role \<Rightarrow>
          if \<not> truthy role
          then Inr (Some (invalid (''Each message must have 'role' and 'content'' @ [CHR 0x27])))
          else
            (case getp msg ''content'' of
               Inl e \<Rightarrow> Inl e
             | Inr content \<Rightarrow>
                 if \<not> truthy content
                 then Inr (Some (invalid (''Each message must have 'role' and 'content'' @ [CHR 0x27])))
                 else if \<not> js_includes [''user'', ''assistant''] role
                 then Inr (Some (invalid (''Message role must be 'user' or 'assistant'' @ [CHR 0x27])))
                 else check_messages rest))"

text \<open>The last check, \<open>body.max_tokens && (body.max_tokens < 1 || body.max_tokens > bound)\<close>.\<close>

definition check_max_tokens :: "(jsval \<Rightarrow> js_error + rat option) \<Rightarrow> variant \<Rightarrow> jsval \<Rightarrow> js_error + validation" where
  "check_max_tokens tn v max_tokens =
     (if \<not> truthy max_tokens then Inr ok_result
      else
        (case js_lt tn max_tokens 1 of
           Inl e \<Rightarrow> Inl e
         | Inr too_small \<Rightarrow>
             if too_small then Inr (invalid (maxTokensError v))
             else
               (case js_gt tn max_tokens (maxTokensLimit v) of
                  Inl e \<Rightarrow> Inl e
                | Inr too_big \<Rightarrow>
                    if too_big then Inr (invalid (maxTokensError v))
                    else Inr ok_result)))"

definition check_model :: "(jsval \<Rightarrow> js_error + rat option) \<Rightarrow> variant \<Rightarrow> jsval \<Rightarrow> js_error + validation" where
  "check_model tn v body =
     (case getp body ''model'' of
        Inl e \<Rightarrow> Inl e
      | Inr model \<Rightarrow>
          if \<not> truthy model
          then Inr (invalid ''Missing 'model' field'')
          else if \<not> js_includes (allowedModels v) model
          then Inr (invalid (''Invalid model. Allowed models: '' @ join '', '' (allowedModels v)))
          else
            (case getp body ''max_tokens'' of
               Inl e \<Rightarrow> Inl e
             | Inr max_tokens \<Rightarrow> check_max_tokens tn v max_tokens))"

definition validateClaudeRequest :: "(jsval \<Rightarrow> js_error + rat option) \<Rightarrow> variant \<Rightarrow> jsval \<Rightarrow> js_error + validation" where
  "validateClaudeRequest tn v body =
     (case getp body ''messages'' of
        Inl e \<Rightarrow> Inl e
      | Inr messages \<Rightarrow>
          if \<not> truthy messages
          then Inr (invalid ''Missing or invalid 'messages' array'')
          else if \<not> isArray messages
          then Inr (invalid ''Missing or invalid 'messages' array'')
          else if length (elems messages) = 0
          then Inr (invalid ''Messages array cannot be empty'')
          else
            (case check_messages (elems messages) of
               Inl e \<Rightarrow> Inl e
             | Inr (Some r) \<Rightarrow> Inr r
             | Inr None \<Rightarrow> check_model tn v body))"

section \<open>Responses\<close>

text \<open>
  A \<open>VercelResponse\<close> as the handlers use it: the status code, the headers set with
  \<open>setHeader\<close> (a later call for the same name replaces the earlier value), the value sent
  with \<open>json\<close>, the strings sent with \<open>write\<close> in call order, and whether the response was
  ended. Headers the platform adds by itself are not recorded.
\<close>

record response =
  statusCode :: nat
  resHeaders :: "(string \<times> string) list"
  jsonBody :: "jsval option"
  chunks :: "string list"
  ended :: bool

definition new_response :: response where
  "new_response = \<lparr>statusCode = 200, resHeaders = [], jsonBody = None, chunks = [], ended = False\<rparr>"

definition setHeader :: "string \<Rightarrow> string \<Rightarrow> response \<Rightarrow> response" where
  "setHeader name val res =
     res\<lparr>resHeaders := filter (\<lambda>kv. fst kv \<noteq> name) (resHeaders res) @ [(name, val)]\<rparr>"

definition set_status :: "nat \<Rightarrow> response \<Rightarrow> response" where
  "set_status code res = res\<lparr>statusCode := code\<rparr>"

definition json :: "jsval \<Rightarrow> response \<Rightarrow> response" where
  "json v res = res\<lparr>jsonBody := Some v, ended := True\<rparr>"

definition res_write :: "string \<Rightarrow> response \<Rightarrow> response" where
  "res_write s res = res\<lparr>chunks := chunks res @ [s]\<rparr>"

definition end_response :: "response \<Rightarrow> response" where
  "end_response res = res\<lparr>ended := True\<rparr>"

text \<open>\<open>res.headersSent\<close>: the headers leave with the first write or with the end.\<close>

definition headersSent :: "response \<Rightarrow> bool" where
  "headersSent res = (if ended res then True else chunks res \<noteq> [])"

text \<open>The field \<open>k\<close> of a JSON body, \<open>None\<close> when the body is no object or has no such field.\<close>

definition body_field :: "response \<Rightarrow> string \<Rightarrow> jsval option" where
  "body_field res k =
     (case jsonBody res of
        Some (JObj kvs) \<Rightarrow> map_of kvs k
      | _ \<Rightarrow> None)"

definition header_of :: "response \<Rightarrow> string \<Rightarrow> string option" where
  "header_of res name = map_of (resHeaders res) name"

section \<open>The error normalizer of \<open>src/api/claude-proxy.ts\<close>\<close>

text \<open>What the \<open>catch\<close> block of the proxy can receive: an \<open>AxiosError\<close> with its optional
  \<open>response\<close> and \<open>code\<close>, or any other \<open>Error\<close>.\<close>

datatype thrown =
    AxiosError "axios_response option" "string option"
  | JsError js_error

text \<open>
  The error-level lines of the server log: a call \<open>console.error(text, detail)\<close> of the
  first version, a call \<open>log('ERROR', text, detail)\<close> of the second. The detail is a value,
  the caught error itself (first version), the object
  \<open>{error: error.message, stack: error.stack, name: error.name}\<close> of the caught error
  (second version), or the object \<open>{status, errorType, errorMessage, headers}\<close> of a
  provider response (second version). The INFO and WARN lines of the second version are
  not recorded.
\<close>

datatype log_detail =
    NoDetail
  | Detail jsval
  | Caught thrown
  | CaughtFields thrown
  | ApiFailure nat jsval jsval "(string \<times> string) list"

record log_entry =
  logText :: string
  logDetail :: log_detail

text \<open>The decimal digits of a status code, as a template literal prints them.\<close>

fun show_nat :: "nat \<Rightarrow> string" where
  "show_nat n =
     (if n < 10 then [''0123456789'' ! n]
      else show_nat (n div 10) @ [''0123456789'' ! (n mod 10)])"

declare show_nat.simps [simp del]

text \<open>\<open>headers[name] || fallback\<close> on string-valued headers.\<close>

definition header_or :: "(string \<times> string) list \<Rightarrow> string \<Rightarrow> string \<Rightarrow> string" where
  "header_or hs name fallback =
     (case map_of hs name of
        None \<Rightarrow> fallback
      | Some h \<Rightarrow> if h = [] then fallback else h)"

text \<open>
  The log line for a provider response. The first version prints \<open>data\<close> as it is; the
  second reads \<open>data.error?.type\<close> and \<open>data.error?.message\<close> for the line and so throws
  (\<open>Inl\<close>) when the provider's body is \<open>null\<close> or \<open>undefined\<close>.
\<close>

definition api_log :: "variant \<Rightarrow> axios_response \<Rightarrow> js_error + log_entry" where
  "api_log v r =
     (if version2 v then
        (case getp (data r) ''error'' of
           Inl e \<Rightarrow> Inl e
         | Inr er \<Rightarrow>
             Inr \<lparr>logText = ''Claude API error '' @ show_nat (status r),
                  logDetail = ApiFailure (status r) (getp_opt er ''type'')
                                (getp_opt er ''message'') (headers r)\<rparr>)
      else
        Inr \<lparr>logText = ''Claude API error '' @ show_nat (status r) @ '':'',
             logDetail = Detail (data r)\<rparr>)"

definition unexpected_log :: "variant \<Rightarrow> thrown \<Rightarrow> log_entry" where
  "unexpected_log v err =
     (if version2 v
      then \<lparr>logText = ''Unexpected proxy error'', logDetail = CaughtFields err\<rparr>
      else \<lparr>logText = ''Unexpected proxy error:'', logDetail = Caught err\<rparr>)"

text \<open>
  \<open>handleProxyError\<close> of both versions (lines 84 to 158 and 362 to 445): the lines it
  logs and what it sends. \<open>data.error?.message\<close> reads \<open>data.error\<close> unguarded, so the
  function itself throws (\<open>Inl\<close>) when the provider's body is \<open>null\<close> or \<open>undefined\<close>
  and a branch, or the log line of the second version, reads it.
\<close>

definition handleProxyError ::
  "variant \<Rightarrow> thrown \<Rightarrow> response \<Rightarrow> log_entry list \<times> (js_error + response)" where
  "handleProxyError v err res =
     (case err of
        AxiosError (Some r) code \<Rightarrow>
          (case api_log v r of
             Inl e \<Rightarrow> ([], Inl e)
           | Inr line \<Rightarrow>
               ([line],
                if status r = 429 then
                  (let retryAfter = header_or (headers r) ''retry-after'' ''60'';
                       res1 = setHeader ''Retry-After'' retryAfter res
                   in case getp (data r) ''error'' of
                        Inl e \<Rightarrow> Inl e
                      | Inr er \<Rightarrow>
                          Inr (json (JObj
                            [(''error'', JStr ''rate_limit_exceeded''),
                             (''message'', js_or (getp_opt er ''message'')
                                                 (JStr ''Claude API rate limit reached'')),
                             (''retry_after'', JStr retryAfter)])
                            (set_status 429 res1)))
                else if status r = 401 \<or> status r = 403 then
                  Inr (json (JObj
                    [(''error'', JStr ''authentication_failed''),
                     (''message'', JStr ''Invalid or expired API credentials'')])
                    (set_status (status r) res))
                else if status r = 529 then
                  Inr (json (JObj
                    [(''error'', JStr ''service_unavailable''),
                     (''message'', JStr ''Claude API is experiencing high traffic'')])
                    (set_status 503 (setHeader ''Retry-After'' ''60'' res)))
                else if status r = 400 then
                  (case getp (data r) ''error'' of
                     Inl e \<Rightarrow> Inl e
                   | Inr er \<Rightarrow>
                       Inr (json (JObj
                         [(''error'', JStr ''invalid_request''),
                          (''message'', js_or (getp_opt er ''message'')
                                              (JStr ''Invalid request to Claude API''))])
                         (set_status 400 res)))
                else
                  (case getp (data r) ''error'' of
                     Inl e \<Rightarrow> Inl e
                   | Inr er \<Rightarrow>
                       Inr (json (JObj
                         [(''error'', js_or (getp_opt er ''type'') (JStr ''api_error'')),
                          (''message'', js_or (getp_opt er ''message'')
                                              (JStr ''Unknown error from Claude API''))])
                         (set_status (status r) res)))))
      | AxiosError None code \<Rightarrow>
          if code = Some ''ECONNABORTED'' then
            ([], Inr (json (JObj
              [(''error'', JStr ''request_timeout''),
               (''message'', JStr (timeoutError v))])
              (set_status 504 res)))
          else if code = Some ''ECONNREFUSED'' \<or> code = Some ''ENOTFOUND'' then
            ([], Inr (json (JObj
              [(''error'', JStr ''service_unavailable''),
               (''message'', JStr ''Could not connect to Claude API'')])
              (set_status 503 res)))
          else
            ([unexpected_log v err], Inr (json (JObj
              [(''error'', JStr ''internal_server_error''),
               (''message'', JStr ''An unexpected error occurred while proxying your request'')])
              (set_status 500 res)))
      | JsError e \<Rightarrow>
          ([unexpected_log v err], Inr (json (JObj
            [(''error'', JStr ''internal_server_error''),
             (''message'', JStr ''An unexpected error occurred while proxying your request'')])
            (set_status 500 res))))"

section \<open>The handler of \<open>src/api/claude-proxy.ts\<close>\<close>

record request =
  httpMethod :: string
  xForwardedFor :: "string option"
  remoteAddress :: "string option"
  body :: jsval

text \<open>The environment: the credential, and the rate limit and its window as \<open>parseInt\<close>
  reads them (100 and 60000 when the variables are unset).\<close>

record env =
  ANTHROPIC_API_KEY :: "string option"
  RATE_LIMIT_REQUESTS :: int
  RATE_LIMIT_WINDOW_MS :: int

text \<open>\<open>String.prototype.trim\<close> on a header value, whose characters are bytes.\<close>

definition is_space :: "char \<Rightarrow> bool" where
  "is_space c = (c \<in> set [CHR 0x09, CHR 0x0A, CHR 0x0B, CHR 0x0C, CHR 0x0D, CHR 0x20, CHR 0xA0])"

definition trim :: "string \<Rightarrow> string" where
  "trim s = rev (dropWhile is_space (rev (dropWhile is_space s)))"

text \<open>
  \<open>x-forwarded-for?.split(",")[0]?.trim() || req.socket.remoteAddress || "unknown"\<close>
\<close>

definition str_or :: "string option \<Rightarrow> string \<Rightarrow> string" where
  "str_or a b = (case a of None \<Rightarrow> b | Some s \<Rightarrow> if s = [] then b else s)"

definition clientIdOf :: "request \<Rightarrow> string" where
  "clientIdOf req =
     str_or (map_option (\<lambda>h. trim (takeWhile (\<lambda>c. c \<noteq> CHR '','') h)) (xForwardedFor req))
       (str_or (remoteAddress req) ''unknown'')"

definition cors :: "response \<Rightarrow> response" where
  "cors res =
     setHeader ''Access-Control-Allow-Headers'' ''Content-Type, Authorization, X-Requested-With''
       (setHeader ''Access-Control-Allow-Methods'' ''POST, OPTIONS''
         (setHeader ''Access-Control-Allow-Origin'' ''*'' res))"

text \<open>The rate-limit headers of the provider, copied when they have a value.\<close>

definition forward_header :: "(string \<times> string) list \<Rightarrow> string \<Rightarrow> string \<Rightarrow> response \<Rightarrow> response" where
  "forward_header hs src dst res =
     (case map_of hs src of
        None \<Rightarrow> res
      | Some h \<Rightarrow> if h = [] then res else setHeader dst h res)"

text \<open>
  The result of one run of the handler: what the caller receives (\<open>Inl\<close> when
  \<open>handleProxyError\<close> itself throws and the promise rejects), the error-level lines
  logged, the rate-limit store after the run, and the outbound calls \<open>axios.post\<close> issued,
  each by the body and the \<open>x-api-key\<close> it carried. The provider is the function
  \<open>upstream\<close>: its answer to a call is a response, or the error \<open>axios\<close> rejects with.
\<close>

record outcome =
  sent :: "js_error + response"
  logged :: "log_entry list"
  store_after :: rl_store
  calls :: "(jsval \<times> string) list"

text \<open>The \<open>catch\<close> block: \<open>return handleProxyError(error, res)\<close>.\<close>

definition caught :: "variant \<Rightarrow> thrown \<Rightarrow> response \<Rightarrow> rl_store \<Rightarrow> (jsval \<times> string) list \<Rightarrow> outcome" where
  "caught v err res store cs =
     \<lparr>sent = snd (handleProxyError v err res), logged = fst (handleProxyError v err res),
      store_after = store, calls = cs\<rparr>"

text \<open>
  What follows a response of the provider. The second version first logs
  \<open>response.data.model\<close> and other fields of the body, a read that throws when the body is
  \<open>null\<close> or \<open>undefined\<close> and lands in the \<open>catch\<close> block.
\<close>

definition forward_response ::
  "variant \<Rightarrow> axios_response \<Rightarrow> response \<Rightarrow> rl_store \<Rightarrow> (jsval \<times> string) list \<Rightarrow> outcome" where
  "forward_response v response res store cs =
     (case (if version2 v then getp (data response) ''model'' else Inr JUndefined) of
        Inl e \<Rightarrow> caught v (JsError e) res store cs
      | Inr logged_model \<Rightarrow>
          \<lparr>sent = Inr (json (data response) (set_status 200
              (forward_header (headers response)
                 ''anthropic-ratelimit-requests-reset'' ''X-RateLimit-Reset''
                 (forward_header (headers response)
                    ''anthropic-ratelimit-requests-remaining''
                    ''X-RateLimit-Remaining'' res)))),
           logged = [], store_after = store, calls = cs\<rparr>)"

definition handler ::
  "(jsval \<Rightarrow> js_error + rat option) \<Rightarrow> variant \<Rightarrow> env \<Rightarrow>
   (jsval \<Rightarrow> string \<Rightarrow> thrown + axios_response) \<Rightarrow> int \<Rightarrow> rl_store \<Rightarrow> request \<Rightarrow> outcome" where
  "handler tn v env upstream now store req =
     (let res = cors new_response in
      if httpMethod req = ''OPTIONS'' then
        \<lparr>sent = Inr (end_response (set_status 200 res)), logged = [],
         store_after = store, calls = []\<rparr>
      else if httpMethod req \<noteq> ''POST'' then
        \<lparr>sent = Inr (json (JObj
            [(''error'', JStr ''method_not_allowed''),
             (''message'', JStr ''Only POST requests are supported'')])
            (set_status 405 res)),
         logged = [], store_after = store, calls = []\<rparr>
      else
        (let clientId = clientIdOf req;
             verdict = checkRateLimit (RATE_LIMIT_REQUESTS env) (RATE_LIMIT_WINDOW_MS env)
                         now store clientId;
             store' = snd verdict
         in
         if \<not> fst verdict then
           \<lparr>sent = Inr (json (JObj
               [(''error'', JStr ''rate_limit_exceeded''),
                (''message'', JStr ''Too many requests. Please try again later.'')])
               (set_status 429 (setHeader ''Retry-After'' ''60'' res))),
            logged = [], store_after = store', calls = []\<rparr>
         else
           (case validateClaudeRequest tn v (body req) of
              Inl e \<Rightarrow> caught v (JsError e) res store' []
            | Inr validation \<Rightarrow>
                if \<not> valid validation then
                  \<lparr>sent = Inr (json (JObj
                      [(''error'', JStr ''invalid_request''),
                       (''message'', (case error validation of
                                        None \<Rightarrow> JUndefined
                                      | Some reason \<Rightarrow> JStr reason))])
                      (set_status 400 res)),
                   logged = [], store_after = store', calls = []\<rparr>
                else
                  (case ANTHROPIC_API_KEY env of
                     None \<Rightarrow>
                       \<lparr>sent = Inr (json (JObj
                           [(''error'', JStr ''server_configuration_error''),
                            (''message'', JStr ''API key not configured on server'')])
                           (set_status 500 res)),
                        logged = [\<lparr>logText = ''ANTHROPIC_API_KEY not configured'',
                                   logDetail = NoDetail\<rparr>],
                        store_after = store', calls = []\<rparr>
                   | Some apiKey \<Rightarrow>
                       if apiKey = [] then
                         \<lparr>sent = Inr (json (JObj
                             [(''error'', JStr ''server_configuration_error''),
                              (''message'', JStr ''API key not configured on server'')])
                             (set_status 500 res)),
                          logged = [\<lparr>logText = ''ANTHROPIC_API_KEY not configured'',
                                     logDetail = NoDetail\<rparr>],
                          store_after = store', calls = []\<rparr>
                       else
                         (case upstream (body req) apiKey of
                            Inl err \<Rightarrow> caught v err res store' [(body req, apiKey)]
                          | Inr response \<Rightarrow>
                              forward_response v response res store' [(body req, apiKey)])))))"

section \<open>The streaming handler of \<open>src/api/claude-stream-v2.ts\<close>\<close>

text \<open>
  \<open>const { model, messages, maxTokens = 4096 } = req.body\<close> throws a \<open>TypeError\<close> when the
  body is \<open>undefined\<close> or \<open>null\<close> (the message is the runtime's wording); the default stands
  in for an \<open>undefined\<close> property only.
\<close>

definition cannot_destructure :: "jsval \<Rightarrow> js_error" where
  "cannot_destructure v =
     \<lparr>ename = ''TypeError'',
      emessage = ''Cannot destructure property 'model' of 'req.body' as it is '' @
                 (if v = JNull then ''null'' else ''undefined'') @ ''.''\<rparr>"

definition destructure :: "jsval \<Rightarrow> js_error + jsval \<times> jsval \<times> jsval" where
  "destructure b =
     (if b = JUndefined then Inl (cannot_destructure b)
      else if b = JNull then Inl (cannot_destructure b)
      else Inr (getp_opt b ''model'', getp_opt b ''messages'',
                (if getp_opt b ''maxTokens'' = JUndefined then JNum 4096
                 else getp_opt b ''maxTokens'')))"

text \<open>\<open>Error.prototype.toString\<close>.\<close>

definition toString :: "js_error \<Rightarrow> string" where
  "toString e =
     (if ename e = [] then emessage e
      else if emessage e = [] then ename e
      else ename e @ '': '' @ emessage e)"

definition startsWith :: "string \<Rightarrow> string \<Rightarrow> bool" where
  "startsWith s p = (take (length p) s = p)"

text \<open>\<open>!process.env.ANTHROPIC_API_KEY?.startsWith('sk-ant-')\<close>\<close>

definition key_rejected :: "env \<Rightarrow> bool" where
  "key_rejected env =
     (case ANTHROPIC_API_KEY env of
        None \<Rightarrow> True
      | Some k \<Rightarrow> \<not> startsWith k ''sk-ant-'')"

definition cors_stream :: "response \<Rightarrow> response" where
  "cors_stream res =
     setHeader ''Access-Control-Allow-Headers'' ''Content-Type''
       (setHeader ''Access-Control-Allow-Methods'' ''POST, OPTIONS''
         (setHeader ''Access-Control-Allow-Origin'' ''*'' res))"

definition sse_headers :: "response \<Rightarrow> response" where
  "sse_headers res =
     setHeader ''Connection'' ''keep-alive''
       (setHeader ''Cache-Control'' ''no-cache''
         (setHeader ''Content-Type'' ''text/event-stream'' res))"

text \<open>
  \<open>const mappedModel = modelMap[model] || model\<close>. The lookup converts \<open>model\<close> to a
  property key: a string is its own key; the conversion of any other value is the runtime's
  (\<open>ToPrimitive\<close>, then \<open>ToString\<close>), taken as the parameter \<open>tk\<close>, and throws a
  \<open>TypeError\<close> (\<open>Inl\<close>) for a value such as the JSON object \<open>{"toString": 1}\<close>. The key
  finds one of the three entries of \<open>modelMap\<close>, or a property that the object literal
  inherits from \<open>Object.prototype\<close> (a function or an object, which is truthy and no JSON
  value), or nothing, and then \<open>model\<close> itself is taken.
\<close>

definition toPropertyKey :: "(jsval \<Rightarrow> js_error + string) \<Rightarrow> jsval \<Rightarrow> js_error + string" where
  "toPropertyKey tk v = (case v of JStr s \<Rightarrow> Inr s | _ \<Rightarrow> tk v)"

definition modelMap :: "(string \<times> string) list" where
  "modelMap =
     [(''claude-sonnet-4-5-20250929'', ''claude-sonnet-4''),
      (''claude-haiku-4-5-20251001'', ''claude-haiku-4''),
      (''claude-opus-4-1-20250805'', ''claude-opus-4'')]"

definition object_prototype_names :: "string list" where
  "object_prototype_names =
     [''constructor'', ''__defineGetter__'', ''__defineSetter__'', ''hasOwnProperty'',
      ''__lookupGetter__'', ''__lookupSetter__'', ''isPrototypeOf'', ''propertyIsEnumerable'',
      ''toString'', ''valueOf'', ''__proto__'', ''toLocaleString'']"

datatype mapped_model = Plain jsval | Inherited string

definition map_model :: "string \<Rightarrow> jsval \<Rightarrow> mapped_model" where
  "map_model key model =
     (case map_of modelMap key of
        Some mapped \<Rightarrow> Plain (JStr mapped)
      | None \<Rightarrow> if key \<in> set object_prototype_names then Inherited key else Plain model)"

text \<open>The arguments of one call \<open>streamText({model: anthropic(mappedModel), messages,
  temperature: 1, maxTokens})\<close>.\<close>

record stream_call =
  callModel :: mapped_model
  callMessages :: jsval
  callMaxTokens :: jsval

text \<open>The loop \<open>for await (const chunk of stream) res.write(`data: ${chunk}\n\n`)\<close> over the
  fragments the provider delivers.\<close>

fun write_chunks :: "string list \<Rightarrow> response \<Rightarrow> response" where
  "write_chunks [] res = res"
| "write_chunks (chunk # rest) res =
     write_chunks rest (res_write (''data: '' @ chunk @ ''\<newline>\<newline>'') res)"

text \<open>The \<open>catch\<close> block.\<close>

definition stream_catch :: "js_error \<Rightarrow> response \<Rightarrow> response" where
  "stream_catch e res =
     (if \<not> headersSent res then
        json (JObj
          [(''error'', JStr (if emessage e = [] then ''Internal server error'' else emessage e)),
           (''details'', JStr (toString e))])
          (set_status 500 res)
      else end_response res)"

text \<open>
  The provider's answer to \<open>streamText\<close> is an input of the model: the call throws
  (\<open>Inl\<close>), or it yields a text stream that delivers fragments and then completes
  (\<open>None\<close>) or throws (\<open>Some e\<close>). The handler returns the response and the calls it
  made to the provider.
\<close>

type_synonym provider_answer = "js_error + string list \<times> js_error option"

definition handler_stream ::
  "(jsval \<Rightarrow> js_error + string) \<Rightarrow> env \<Rightarrow> provider_answer \<Rightarrow> request \<Rightarrow>
   response \<times> stream_call list" where
  "handler_stream tk env provider req =
     (let res = cors_stream new_response in
      if httpMethod req = ''OPTIONS'' then (end_response (set_status 204 res), [])
      else if httpMethod req \<noteq> ''POST'' then
        (json (JObj [(''error'', JStr ''Method not allowed'')]) (set_status 405 res), [])
      else
        (case destructure (body req) of
           Inl e \<Rightarrow> (stream_catch e res, [])
         | Inr (model, messages, maxTokens) \<Rightarrow>
             if \<not> truthy model then
               (json (JObj [(''error'', JStr ''Missing required fields: model, messages'')])
                  (set_status 400 res), [])
             else if \<not> truthy messages then
               (json (JObj [(''error'', JStr ''Missing required fields: model, messages'')])
                  (set_status 400 res), [])
             else
               (case toPropertyKey tk model of
                  Inl e \<Rightarrow> (stream_catch e res, [])
                | Inr key \<Rightarrow>
                    (let mappedModel = map_model key model;
                         call = \<lparr>callModel = mappedModel, callMessages = messages,
                                 callMaxTokens = maxTokens\<rparr>
                     in
                     if key_rejected env then
                       (json (JObj [(''error'', JStr ''ANTHROPIC_API_KEY not configured'')])
                          (set_status 500 res), [])
                     else
                       (case provider of
                          Inl e \<Rightarrow> (stream_catch e res, [call])
                        | Inr (fragments, failure) \<Rightarrow>
                            (let res1 = write_chunks fragments (sse_headers res) in
                             case failure of
                               None \<Rightarrow>
                                 (end_response
                                    (res_write ''data: [DONE]\<newline>\<newline>'' res1), [call])
                             | Some e \<Rightarrow> (stream_catch e res1, [call])))))))"

section \<open>The agent handler (\<open>src/api/test-basic.ts\<close>, lines 75 to 172)\<close>

text \<open>
  This handler answers with a web \<open>Response\<close>: a status, the headers given to the
  constructor, and a body that is absent, a text, the JSON text of a value, or the data
  stream of the agent.
\<close>

datatype web_body = NoBody | TextBody string | JsonBody jsval | DataStream

record web_response =
  wstatus :: nat
  wheaders :: "(string \<times> string) list"
  wbody :: web_body

definition corsHeaders :: "(string \<times> string) list" where
  "corsHeaders =
     [(''Access-Control-Allow-Origin'', ''*''),
      (''Access-Control-Allow-Methods'', ''POST, OPTIONS''),
      (''Access-Control-Allow-Headers'', ''Content-Type'')]"

definition json_headers :: "(string \<times> string) list" where
  "json_headers = corsHeaders @ [(''Content-Type'', ''application/json'')]"

text \<open>
  The \<open>catch\<close> block (lines 157 to 171) receives the error together with its \<open>stack\<close>.
\<close>

definition agent_catch :: "js_error \<times> string \<Rightarrow> web_response" where
  "agent_catch es =
     \<lparr>wstatus = 500, wheaders = json_headers,
      wbody = JsonBody (JObj
        [(''error'', JStr (if emessage (fst es) = [] then ''Internal server error''
                           else emessage (fst es))),
         (''details'', JStr (toString (fst es))),
         (''stack'', JStr (snd es))])\<rparr>"

definition cannot_destructure_body :: "jsval \<Rightarrow> js_error" where
  "cannot_destructure_body v =
     \<lparr>ename = ''TypeError'',
      emessage = ''Cannot destructure property 'userPrompt' of 'body' as it is '' @
                 (if v = JNull then ''null'' else ''undefined'') @ ''.''\<rparr>"

text \<open>
  The inputs: the request method; what \<open>req.json()\<close> gives, the parsed body or the error
  it rejects with; what the rest of the \<open>try\<close> block does after the check of
  \<open>userPrompt\<close> (\<open>createDesignAgent\<close>, \<open>streamText\<close>, \<open>toDataStreamResponse\<close>), which
  throws or returns the data stream; and \<open>st\<close>, the stack the runtime gives the
  \<open>TypeError\<close> of a destructured \<open>null\<close>.
\<close>

definition handler_agent ::
  "string \<Rightarrow> string \<Rightarrow> (js_error \<times> string) + jsval \<Rightarrow> (js_error \<times> string) + unit \<Rightarrow> web_response" where
  "handler_agent st meth parsed run =
     (if meth = ''OPTIONS'' then \<lparr>wstatus = 204, wheaders = corsHeaders, wbody = NoBody\<rparr>
      else if meth \<noteq> ''POST'' then
        \<lparr>wstatus = 405, wheaders = corsHeaders, wbody = TextBody ''Method not allowed''\<rparr>
      else
        (case parsed of
           Inl es \<Rightarrow> agent_catch es
         | Inr b \<Rightarrow>
             if b = JUndefined then agent_catch (cannot_destructure_body b, st)
             else if b = JNull then agent_catch (cannot_destructure_body b, st)
             else if \<not> truthy (getp_opt b ''userPrompt'') then
               \<lparr>wstatus = 400, wheaders = json_headers,
                wbody = JsonBody (JObj
                  [(''error'', JStr ''Missing required field: userPrompt'')])\<rparr>
             else
               (case run of
                  Inl es \<Rightarrow> agent_catch es
                | Inr u \<Rightarrow> \<lparr>wstatus = 200, wheaders = corsHeaders, wbody = DataStream\<rparr>)))"

section \<open>Notions used in the statements\<close>

definition nullish :: "jsval \<Rightarrow> bool" where
  "nullish v = (v = JUndefined \<or> v = JNull)"

text \<open>A message that passes the loop of the validator: \<open>role\<close> and \<open>content\<close> are truthy and
  \<open>role\<close> is one of the two strings.\<close>

definition message_ok :: "jsval \<Rightarrow> bool" where
  "message_ok msg =
     (truthy (getp_opt msg ''role'') \<and> truthy (getp_opt msg ''content'') \<and>
      js_includes [''user'', ''assistant''] (getp_opt msg ''role''))"

text \<open>The reason the loop gives for a message that does not pass.\<close>

definition message_reason :: "jsval \<Rightarrow> string" where
  "message_reason msg =
     (if truthy (getp_opt msg ''role'') \<and> truthy (getp_opt msg ''content'')
      then ''Message role must be 'user' or 'assistant'' @ [CHR 0x27]
      else ''Each message must have 'role' and 'content'' @ [CHR 0x27])"

text \<open>The status, a JSON field and a header of what was sent; \<open>None\<close> when nothing was
  sent because the normalizer threw.\<close>

definition reply_status :: "js_error + response \<Rightarrow> nat option" where
  "reply_status s = (case s of Inl e \<Rightarrow> None | Inr res \<Rightarrow> Some (statusCode res))"

definition reply_field :: "js_error + response \<Rightarrow> string \<Rightarrow> jsval option" where
  "reply_field s k = (case s of Inl e \<Rightarrow> None | Inr res \<Rightarrow> body_field res k)"

definition reply_header :: "js_error + response \<Rightarrow> string \<Rightarrow> string option" where
  "reply_header s name = (case s of Inl e \<Rightarrow> None | Inr res \<Rightarrow> header_of res name)"

text \<open>Whether the rate limiter admits the request at this clock and store.\<close>

definition admitted :: "env \<Rightarrow> int \<Rightarrow> rl_store \<Rightarrow> request \<Rightarrow> bool" where
  "admitted env now store req =
     fst (checkRateLimit (RATE_LIMIT_REQUESTS env) (RATE_LIMIT_WINDOW_MS env) now store
            (clientIdOf req))"

text \<open>A request that reaches the credential check of the streaming handler: a POST whose
  body is an object with truthy \<open>model\<close> and \<open>messages\<close>, where the conversion of \<open>model\<close>
  to a property key does not throw (as for every string).\<close>

definition stream_ready :: "(jsval \<Rightarrow> js_error + string) \<Rightarrow> request \<Rightarrow> bool" where
  "stream_ready tk req =
     (httpMethod req = ''POST'' \<and> \<not> nullish (body req) \<and>
      truthy (getp_opt (body req) ''model'') \<and> truthy (getp_opt (body req) ''messages'') \<and>
      (case toPropertyKey tk (getp_opt (body req) ''model'') of
         Inl e \<Rightarrow> False
       | Inr key \<Rightarrow> True))"

text \<open>The call the streaming handler makes for a request.\<close>

definition call_of :: "(jsval \<Rightarrow> js_error + string) \<Rightarrow> request \<Rightarrow> stream_call list" where
  "call_of tk req =
     (case toPropertyKey tk (getp_opt (body req) ''model'') of
        Inl e \<Rightarrow> []
      | Inr key \<Rightarrow>
          [\<lparr>callModel = map_model key (getp_opt (body req) ''model''),
            callMessages = getp_opt (body req) ''messages'',
            callMaxTokens = (if getp_opt (body req) ''maxTokens'' = JUndefined then JNum 4096
                             else getp_opt (body req) ''maxTokens'')\<rparr>])"

text \<open>The whole of what the normalizer sends for an unclassified failure.\<close>

definition generic_500 :: "response \<Rightarrow> response" where
  "generic_500 res =
     json (JObj
       [(''error'', JStr ''internal_server_error''),
        (''message'', JStr ''An unexpected error occurred while proxying your request'')])
       (set_status 500 res)"

section \<open>Properties of the rate limiter\<close>

lemma bits_le: "m < 2 ^ k \<Longrightarrow> bits m \<le> k"
proof (induction m arbitrary: k rule: bits.induct)
  case (1 n)
  show ?case
  proof (cases "n = 0")
    case True
    then show ?thesis by (simp add: bits.simps)
  next
    case False
    then obtain j where k: "k = Suc j"
      using "1.prems" by (cases k) auto
    have "n div 2 < 2 ^ j"
      using "1.prems" k by auto
    from "1.IH" [OF False this] show ?thesis
      using False k by (subst bits.simps) simp
  qed
qed

lemma round_double_exact: "\<bar>x\<bar> < 2 ^ 53 \<Longrightarrow> round_double x = x"
proof -
  assume a: "\<bar>x\<bar> < 2 ^ 53"
  have "nat \<bar>x\<bar> < 2 ^ 53"
    using a by (simp add: nat_less_iff)
  then have "bits (nat \<bar>x\<bar>) - 53 = 0"
    using bits_le [of "nat \<bar>x\<bar>" 53] by simp
  then have "round_double x = sgn x * int (nat \<bar>x\<bar>)"
    unfolding round_double_def Let_def by simp
  then show ?thesis
    by (simp add: mult_sgn_abs)
qed

text \<open>Below \<open>2^53\<close> the addition of the code is the addition of integers.\<close>

lemma js_add_exact: "\<bar>a + b\<bar> < 2 ^ 53 \<Longrightarrow> js_add a b = a + b"
  by (simp add: js_add_def round_double_exact)

text \<open>Above \<open>2^53\<close> the sum is rounded to the nearest double, ties to even.\<close>

lemma bits_eq: "2 ^ k \<le> m \<Longrightarrow> m < 2 ^ Suc k \<Longrightarrow> bits m = Suc k"
proof (induction k arbitrary: m)
  case 0
  then have "m = 1" by simp
  then show ?case by (simp add: bits.simps)
next
  case (Suc k)
  have pos: "(0::nat) < 2 ^ k" by simp
  have "2 ^ k \<le> m div 2" "m div 2 < 2 ^ Suc k"
    using Suc.prems by auto
  then have "bits (m div 2) = Suc k" by (rule Suc.IH)
  moreover have "m \<noteq> 0" using Suc.prems(1) pos by (cases m) auto
  ultimately show ?case by (subst bits.simps) simp
qed

lemma js_add_rounds_to_even:
  "js_add 5001 (2 ^ 53) = 9007199254745992 \<and> js_add (2 ^ 53) 1 = 2 ^ 53"
proof -
  have b1: "bits 9007199254745993 = 54"
    using bits_eq [of 53 9007199254745993] by simp
  have b2: "bits 9007199254740993 = 54"
    using bits_eq [of 53 9007199254740993] by simp
  show ?thesis
    by (simp add: js_add_def round_double_def Let_def b1 b2)
qed

lemma checkRateLimit_fresh:
  "store c = None \<or> (\<exists>e. store c = Some e \<and> resetTime e < now) \<Longrightarrow>
   checkRateLimit limit window now store c =
     (True, store(c \<mapsto> \<lparr>count = 1, resetTime = js_add now window\<rparr>))"
  by (auto simp: checkRateLimit_def)

lemma checkRateLimit_within:
  "store c = Some e \<Longrightarrow> \<not> resetTime e < now \<Longrightarrow>
   checkRateLimit limit window now store c =
     (if count e < limit then (True, store(c \<mapsto> e\<lparr>count := js_add (count e) 1\<rparr>))
      else (False, store))"
  by (simp add: checkRateLimit_def)

lemma admit_all_within:
  "store c = Some e \<Longrightarrow> \<not> resetTime e < t \<Longrightarrow> \<bar>count e\<bar> + int n < 2 ^ 53 \<Longrightarrow>
   fst (admit_all limit window store c (replicate n t)) =
     map (\<lambda>i. count e + int i < limit) [0..<n]"
proof (induction n arbitrary: store e)
  case 0
  then show ?case by simp
next
  case (Suc n)
  show ?case
  proof (cases "count e < limit")
    case True
    let ?e' = "e\<lparr>count := count e + 1\<rparr>"
    let ?s' = "store(c \<mapsto> ?e')"
    have "js_add (count e) 1 = count e + 1"
      using Suc.prems(3) by (intro js_add_exact) simp
    then have step: "checkRateLimit limit window t store c = (True, ?s')"
      using Suc.prems True by (simp add: checkRateLimit_within)
    have "fst (admit_all limit window ?s' c (replicate n t)) =
            map (\<lambda>i. count ?e' + int i < limit) [0..<n]"
      by (rule Suc.IH) (use Suc.prems in simp_all)
    then show ?thesis
      using True step by (simp add: map_upt_Suc split_beta add.assoc del: upt_Suc)
  next
    case False
    have step: "checkRateLimit limit window t store c = (False, store)"
      using Suc.prems False by (simp add: checkRateLimit_within)
    have "fst (admit_all limit window store c (replicate n t)) =
            map (\<lambda>i. count e + int i < limit) [0..<n]"
      by (rule Suc.IH) (use Suc.prems in simp_all)
    then show ?thesis
      using False step by (simp add: map_upt_Suc split_beta del: upt_Suc)
  qed
qed

lemma admit_all_fresh_fixed_clock:
  assumes "store c = None \<or> (\<exists>e. store c = Some e \<and> resetTime e < t)" "0 \<le> window"
    "\<bar>t + window\<bar> < 2 ^ 53" "1 + int n < 2 ^ 53"
  shows "fst (admit_all limit window store c (replicate (Suc n) t)) =
           True # map (\<lambda>i. 1 + int i < limit) [0..<n]"
proof -
  let ?e = "\<lparr>count = 1, resetTime = t + window\<rparr>"
  let ?s = "store(c \<mapsto> ?e)"
  have "checkRateLimit limit window t store c =
      (True, store(c \<mapsto> \<lparr>count = 1, resetTime = js_add t window\<rparr>))"
    using assms(1) by (rule checkRateLimit_fresh)
  then have step: "checkRateLimit limit window t store c = (True, ?s)"
    using assms(3) by (simp add: js_add_exact)
  have "fst (admit_all limit window ?s c (replicate n t)) =
          map (\<lambda>i. count ?e + int i < limit) [0..<n]"
    by (rule admit_all_within) (use assms in simp_all)
  then show ?thesis using step by (simp add: split_beta)
qed

lemma admit_all_scenario:
  "store c = None \<or> (\<exists>e. store c = Some e \<and> resetTime e < t) \<Longrightarrow> t + 1000 < t' \<Longrightarrow>
   \<bar>t + 1000\<bar> < 2 ^ 53 \<Longrightarrow> \<bar>t' + 1000\<bar> < 2 ^ 53 \<Longrightarrow>
   admit_all 3 1000 store c [t, t, t, t, t'] =
     ([True, True, True, False, True], store(c \<mapsto> \<lparr>count = 1, resetTime = t' + 1000\<rparr>))"
  by (auto simp: checkRateLimit_def js_add_exact)

text \<open>
  \<^bold>\<open>Claim C1.\<close> \<open>checkRateLimit\<close> is a fixed-window counter. For every store, client
  and clock reading: when the client has no entry, or its entry's \<open>resetTime\<close> is strictly
  below \<open>now\<close>, the call stores \<open>{count: 1, resetTime: now + window}\<close> and returns true;
  otherwise it returns true and increments \<open>count\<close> when \<open>count < limit\<close>, and returns
  false, leaving the store as it is, when not. The sums \<open>now + window\<close> and \<open>count + 1\<close>
  are the sums of integers as long as they stay below \<open>2^53\<close> in absolute value, where the
  doubles of the code add exactly. Under a fixed clock and a non-negative window,
  the first call of a fresh client is admitted and call number \<open>i + 2\<close> is admitted exactly
  when \<open>1 + i < limit\<close>. With \<open>limit = 3\<close> and \<open>window = 1000\<close>, four calls at clock \<open>t\<close>
  give true, true, true, false, and a call at any \<open>t' > t + 1000\<close> gives true and leaves
  a fresh entry with count 1.
\<close>

theorem checkRateLimit_fixed_window:
  fixes store :: rl_store and c :: string and now limit window t t' :: int and n :: nat
  shows
    "((store c = None \<or> (\<exists>e. store c = Some e \<and> resetTime e < now)) \<and>
      \<bar>now + window\<bar> < 2 ^ 53 \<longrightarrow>
        checkRateLimit limit window now store c =
          (True, store(c \<mapsto> \<lparr>count = 1, resetTime = now + window\<rparr>))) \<and>
     (\<forall>e. store c = Some e \<and> \<not> resetTime e < now \<and> count e < limit \<and>
          \<bar>count e + 1\<bar> < 2 ^ 53 \<longrightarrow>
        checkRateLimit limit window now store c =
          (True, store(c \<mapsto> e\<lparr>count := count e + 1\<rparr>))) \<and>
     (\<forall>e. store c = Some e \<and> \<not> resetTime e < now \<and> \<not> count e < limit \<longrightarrow>
        checkRateLimit limit window now store c = (False, store)) \<and>
     ((store c = None \<or> (\<exists>e. store c = Some e \<and> resetTime e < t)) \<and> 0 \<le> window \<and>
      \<bar>t + window\<bar> < 2 ^ 53 \<and> 1 + int n < 2 ^ 53 \<longrightarrow>
        fst (admit_all limit window store c (replicate (Suc n) t)) =
          True # map (\<lambda>i. 1 + int i < limit) [0..<n]) \<and>
     ((store c = None \<or> (\<exists>e. store c = Some e \<and> resetTime e < t)) \<and> t + 1000 < t' \<and>
      \<bar>t + 1000\<bar> < 2 ^ 53 \<and> \<bar>t' + 1000\<bar> < 2 ^ 53 \<longrightarrow>
        admit_all 3 1000 store c [t, t, t, t, t'] =
          ([True, True, True, False, True],
           store(c \<mapsto> \<lparr>count = 1, resetTime = t' + 1000\<rparr>)))"
proof (intro conjI allI impI)
  assume a: "(store c = None \<or> (\<exists>e. store c = Some e \<and> resetTime e < now)) \<and>
      \<bar>now + window\<bar> < 2 ^ 53"
  then have "checkRateLimit limit window now store c =
      (True, store(c \<mapsto> \<lparr>count = 1, resetTime = js_add now window\<rparr>))"
    by (intro checkRateLimit_fresh) simp
  then show "checkRateLimit limit window now store c =
      (True, store(c \<mapsto> \<lparr>count = 1, resetTime = now + window\<rparr>))"
    using a by (simp add: js_add_exact)
next
  fix e assume "store c = Some e \<and> \<not> resetTime e < now \<and> count e < limit \<and>
          \<bar>count e + 1\<bar> < 2 ^ 53"
  then show "checkRateLimit limit window now store c =
      (True, store(c \<mapsto> e\<lparr>count := count e + 1\<rparr>))"
    by (simp add: checkRateLimit_within js_add_exact)
next
  fix e assume "store c = Some e \<and> \<not> resetTime e < now \<and> \<not> count e < limit"
  then show "checkRateLimit limit window now store c = (False, store)"
    by (simp add: checkRateLimit_within)
next
  assume "(store c = None \<or> (\<exists>e. store c = Some e \<and> resetTime e < t)) \<and> 0 \<le> window \<and>
      \<bar>t + window\<bar> < 2 ^ 53 \<and> 1 + int n < 2 ^ 53"
  then show "fst (admit_all limit window store c (replicate (Suc n) t)) =
      True # map (\<lambda>i. 1 + int i < limit) [0..<n]"
    by (intro admit_all_fresh_fixed_clock) simp_all
next
  assume "(store c = None \<or> (\<exists>e. store c = Some e \<and> resetTime e < t)) \<and> t + 1000 < t' \<and>
      \<bar>t + 1000\<bar> < 2 ^ 53 \<and> \<bar>t' + 1000\<bar> < 2 ^ 53"
  then show "admit_all 3 1000 store c [t, t, t, t, t'] =
      ([True, True, True, False, True],
       store(c \<mapsto> \<lparr>count = 1, resetTime = t' + 1000\<rparr>))"
    by (intro admit_all_scenario) simp_all
qed

theorem checkRateLimit_fixed_window_witness:
  "checkRateLimit 3 1000 5000 Map.empty ''10.0.0.1'' =
     (True, [''10.0.0.1'' \<mapsto> \<lparr>count = 1, resetTime = 6000\<rparr>]) \<and>
   checkRateLimit 3 1000 5500 [''10.0.0.1'' \<mapsto> \<lparr>count = 2, resetTime = 6000\<rparr>] ''10.0.0.1'' =
     (True, [''10.0.0.1'' \<mapsto> \<lparr>count = 3, resetTime = 6000\<rparr>]) \<and>
   checkRateLimit 3 1000 6000 [''10.0.0.1'' \<mapsto> \<lparr>count = 3, resetTime = 6000\<rparr>] ''10.0.0.1'' =
     (False, [''10.0.0.1'' \<mapsto> \<lparr>count = 3, resetTime = 6000\<rparr>]) \<and>
   fst (admit_all 2 1000 Map.empty ''10.0.0.1'' (replicate (Suc 2) 5000)) =
     [True, True, False] \<and>
   admit_all 3 1000 Map.empty ''10.0.0.1'' [5000, 5000, 5000, 5000, 6001] =
     ([True, True, True, False, True], [''10.0.0.1'' \<mapsto> \<lparr>count = 1, resetTime = 7001\<rparr>])"
proof -
  let ?c = "''10.0.0.1''"
  let ?e2 = "\<lparr>count = 2, resetTime = 6000\<rparr>"
  let ?e3 = "\<lparr>count = 3, resetTime = 6000\<rparr>"
  note a = checkRateLimit_fixed_window
    [where store = Map.empty and c = ?c and now = 5000 and limit = 3 and window = 1000
       and t = 5000 and t' = 6001]
  note b = checkRateLimit_fixed_window
    [where store = "[?c \<mapsto> ?e2]" and c = ?c and now = 5500 and limit = 3 and window = 1000]
  note d = checkRateLimit_fixed_window
    [where store = "[?c \<mapsto> ?e3]" and c = ?c and now = 6000 and limit = 3 and window = 1000]
  note f = checkRateLimit_fixed_window
    [where store = Map.empty and c = ?c and limit = 2 and window = 1000 and t = 5000 and n = 2]
  have 1: "checkRateLimit 3 1000 5000 Map.empty ?c = (True, [?c \<mapsto> \<lparr>count = 1, resetTime = 6000\<rparr>])"
    using a [THEN conjunct1] by simp
  have 2: "checkRateLimit 3 1000 5500 [?c \<mapsto> ?e2] ?c = (True, [?c \<mapsto> ?e3])"
    using b [THEN conjunct2, THEN conjunct1, THEN spec, of ?e2] by simp
  have 3: "checkRateLimit 3 1000 6000 [?c \<mapsto> ?e3] ?c = (False, [?c \<mapsto> ?e3])"
    using d [THEN conjunct2, THEN conjunct2, THEN conjunct1, THEN spec, of ?e3] by simp
  have "fst (admit_all 2 1000 Map.empty ?c (replicate (Suc 2) 5000)) =
      True # map (\<lambda>i. 1 + int i < 2) [0..<2]"
    by (rule f [THEN conjunct2, THEN conjunct2, THEN conjunct2, THEN conjunct1, THEN mp]) simp
  then have 4: "fst (admit_all 2 1000 Map.empty ?c (replicate (Suc 2) 5000)) = [True, True, False]"
    by (simp add: upt_conv_Cons)
  have 5: "admit_all 3 1000 Map.empty ?c [5000, 5000, 5000, 5000, 6001] =
      ([True, True, True, False, True], [?c \<mapsto> \<lparr>count = 1, resetTime = 6001 + 1000\<rparr>])"
    by (rule a [THEN conjunct2, THEN conjunct2, THEN conjunct2, THEN conjunct2, THEN mp]) simp
  from 1 2 3 4 5 show ?thesis by simp
qed

lemma checkRateLimit_other:
  "d \<noteq> c \<Longrightarrow> snd (checkRateLimit limit window now store c) d = store d"
  by (simp add: checkRateLimit_def split: option.splits)

lemma checkRateLimit_dom:
  "dom (snd (checkRateLimit limit window now store c)) = insert c (dom store) \<or>
   dom (snd (checkRateLimit limit window now store c)) = dom store"
  by (auto simp: checkRateLimit_def split: option.splits)

lemma admit_all_other:
  "d \<noteq> c \<Longrightarrow> snd (admit_all limit window store c nows) d = store d"
  by (induction nows arbitrary: store)
     (simp_all add: split_beta checkRateLimit_other)

text \<open>
  \<^bold>\<open>Claim C10.\<close> A call \<open>checkRateLimit(c)\<close> changes at most the entry stored under
  \<open>c\<close>: the entry of every other client \<open>d\<close> is the same before and after the call, and
  no key is removed, so the key set of the store after the call contains the key set before
  it. An expired entry of \<open>d\<close> therefore stays until a call for \<open>d\<close> itself replaces it.
\<close>

theorem checkRateLimit_frame:
  fixes store store' :: rl_store
  assumes "checkRateLimit limit window now store c = (ok, store')"
  shows "(\<forall>d. d \<noteq> c \<longrightarrow> store' d = store d) \<and> dom store \<subseteq> dom store'"
proof -
  have s: "store' = snd (checkRateLimit limit window now store c)"
    using assms by simp
  have "\<forall>d. d \<noteq> c \<longrightarrow> store' d = store d"
    unfolding s by (simp add: checkRateLimit_other)
  moreover have "dom store \<subseteq> dom store'"
    unfolding s using checkRateLimit_dom [of limit window now store c] by auto
  ultimately show ?thesis by simp
qed

theorem checkRateLimit_frame_witness:
  "checkRateLimit 3 1000 9000
      [''a'' \<mapsto> \<lparr>count = 3, resetTime = 2000\<rparr>, ''b'' \<mapsto> \<lparr>count = 1, resetTime = 9500\<rparr>] ''b'' =
     (True, [''a'' \<mapsto> \<lparr>count = 3, resetTime = 2000\<rparr>, ''b'' \<mapsto> \<lparr>count = 2, resetTime = 9500\<rparr>]) \<and>
   [''a'' \<mapsto> \<lparr>count = 3, resetTime = 2000\<rparr>, ''b'' \<mapsto> \<lparr>count = 2, resetTime = 9500\<rparr>] ''a'' =
     [''a'' \<mapsto> \<lparr>count = 3, resetTime = 2000\<rparr>, ''b'' \<mapsto> \<lparr>count = 1, resetTime = 9500\<rparr>] ''a'' \<and>
   dom [''a'' \<mapsto> \<lparr>count = 3, resetTime = 2000\<rparr>, ''b'' \<mapsto> \<lparr>count = 1, resetTime = 9500\<rparr>]
     \<subseteq> dom [''a'' \<mapsto> \<lparr>count = 3, resetTime = 2000\<rparr>, ''b'' \<mapsto> \<lparr>count = 2, resetTime = 9500\<rparr>]"
proof -
  let ?s = "[''a'' \<mapsto> \<lparr>count = 3, resetTime = 2000\<rparr>, ''b'' \<mapsto> \<lparr>count = 1, resetTime = 9500\<rparr>]"
  let ?s' = "[''a'' \<mapsto> \<lparr>count = 3, resetTime = 2000\<rparr>, ''b'' \<mapsto> \<lparr>count = 2, resetTime = 9500\<rparr>]"
  have run: "checkRateLimit 3 1000 9000 ?s ''b'' = (True, ?s')"
    by (simp add: checkRateLimit_def js_add_exact)
  from checkRateLimit_frame [OF run]
  have "(\<forall>d. d \<noteq> ''b'' \<longrightarrow> ?s' d = ?s d) \<and> dom ?s \<subseteq> dom ?s'" .
  then have "?s' ''a'' = ?s ''a'' \<and> dom ?s \<subseteq> dom ?s'" by simp
  with run show ?thesis by blast
qed

section \<open>Properties of the request validator\<close>

lemma getp_not_nullish: "\<not> nullish v \<Longrightarrow> getp v k = Inr (getp_opt v k)"
  by (cases v) (simp_all add: nullish_def getp_opt_def)

lemma getp_nullish: "nullish v \<Longrightarrow> getp v k = Inl (cannot_read v k)"
  by (auto simp: nullish_def)

lemma message_ok_not_nullish: "message_ok m \<Longrightarrow> \<not> nullish m"
  by (auto simp: message_ok_def nullish_def getp_opt_def)

lemma check_messages_step_ok:
  "message_ok m \<Longrightarrow> check_messages (m # rest) = check_messages rest"
  using message_ok_not_nullish [of m]
  by (simp add: getp_not_nullish message_ok_def)

lemma check_messages_step_bad:
  "\<not> nullish m \<Longrightarrow> \<not> message_ok m \<Longrightarrow>
   check_messages (m # rest) = Inr (Some (invalid (message_reason m)))"
  by (auto simp: getp_not_nullish message_ok_def message_reason_def)

lemma check_messages_step_null:
  "nullish m \<Longrightarrow> check_messages (m # rest) = Inl (cannot_read m ''role'')"
  by (simp add: getp_nullish)

lemma check_messages_all_ok:
  "\<forall>m \<in> set msgs. message_ok m \<Longrightarrow> check_messages msgs = Inr None"
  by (induction msgs) (simp_all add: check_messages_step_ok del: check_messages.simps(2))

lemma check_messages_first_bad:
  "\<forall>m \<in> set pre. message_ok m \<Longrightarrow> \<not> nullish m \<Longrightarrow> \<not> message_ok m \<Longrightarrow>
   check_messages (pre @ m # post) = Inr (Some (invalid (message_reason m)))"
  by (induction pre)
     (simp_all add: check_messages_step_ok check_messages_step_bad del: check_messages.simps(2))

lemma check_messages_first_null:
  "\<forall>m \<in> set pre. message_ok m \<Longrightarrow> nullish m \<Longrightarrow>
   check_messages (pre @ m # post) = Inl (cannot_read m ''role'')"
  by (induction pre)
     (simp_all add: check_messages_step_ok check_messages_step_null del: check_messages.simps(2))

lemma split_first_bad:
  "\<exists>m \<in> set msgs. \<not> message_ok m \<Longrightarrow>
   \<exists>pre m post. msgs = pre @ m # post \<and> (\<forall>x \<in> set pre. message_ok x) \<and> \<not> message_ok m"
  using split_list_first_prop [of msgs "\<lambda>m. \<not> message_ok m"] by auto

lemma check_messages_some_bad:
  assumes "\<forall>m \<in> set msgs. \<not> nullish m" "\<exists>m \<in> set msgs. \<not> message_ok m"
  shows "\<exists>m \<in> set msgs. check_messages msgs = Inr (Some (invalid (message_reason m)))"
proof -
  from split_first_bad [OF assms(2)] obtain pre m post where
    s: "msgs = pre @ m # post" "\<forall>x \<in> set pre. message_ok x" "\<not> message_ok m" by blast
  have "\<not> nullish m" using assms(1) s(1) by simp
  then have "check_messages msgs = Inr (Some (invalid (message_reason m)))"
    unfolding s(1) using s(2,3) by (intro check_messages_first_bad)
  then show ?thesis using s(1) by auto
qed

lemma validate_nullish_body:
  "nullish b \<Longrightarrow> validateClaudeRequest tn v b = Inl (cannot_read b ''messages'')"
  by (simp add: validateClaudeRequest_def getp_nullish)

lemma validate_messages_missing:
  "\<not> nullish b \<Longrightarrow> \<not> truthy (getp_opt b ''messages'') \<or> \<not> isArray (getp_opt b ''messages'') \<Longrightarrow>
   validateClaudeRequest tn v b = Inr (invalid ''Missing or invalid 'messages' array'')"
  by (auto simp: validateClaudeRequest_def getp_not_nullish)

lemma validate_messages_empty:
  "\<not> nullish b \<Longrightarrow> getp_opt b ''messages'' = JArr [] \<Longrightarrow>
   validateClaudeRequest tn v b = Inr (invalid ''Messages array cannot be empty'')"
  by (simp add: validateClaudeRequest_def getp_not_nullish)

lemma validate_messages_checked:
  "\<not> nullish b \<Longrightarrow> getp_opt b ''messages'' = JArr msgs \<Longrightarrow> msgs \<noteq> [] \<Longrightarrow>
   validateClaudeRequest tn v b =
     (case check_messages msgs of
        Inl e \<Rightarrow> Inl e
      | Inr (Some r) \<Rightarrow> Inr r
      | Inr None \<Rightarrow> check_model tn v b)"
  by (simp add: validateClaudeRequest_def getp_not_nullish)

lemma check_model_eq:
  "\<not> nullish b \<Longrightarrow>
   check_model tn v b =
     (if \<not> truthy (getp_opt b ''model'') then Inr (invalid ''Missing 'model' field'')
      else if \<not> js_includes (allowedModels v) (getp_opt b ''model'')
      then Inr (invalid (''Invalid model. Allowed models: '' @ join '', '' (allowedModels v)))
      else check_max_tokens tn v (getp_opt b ''max_tokens''))"
  by (simp add: check_model_def getp_not_nullish)

text \<open>The last check throws exactly when the conversion of a truthy \<open>max_tokens\<close> throws.\<close>

lemma check_max_tokens_throws:
  "(\<exists>e. check_max_tokens tn v mt = Inl e) \<longleftrightarrow> truthy mt \<and> (\<exists>e. toNumber tn mt = Inl e)"
  by (auto simp: check_max_tokens_def js_lt_def js_gt_def split: sum.splits option.splits)

lemma check_max_tokens_number:
  "check_max_tokens tn v (JNum q) =
     (if q = 0 \<or> (1 \<le> q \<and> q \<le> maxTokensLimit v) then Inr ok_result
      else Inr (invalid (maxTokensError v)))"
  by (auto simp: check_max_tokens_def js_lt_def js_gt_def toNumber_def)

lemma not_nullish_obj: "getp_opt b k = JArr msgs \<Longrightarrow> \<not> nullish b"
  by (auto simp: nullish_def getp_opt_def)

lemma check_messages_throws:
  "check_messages msgs = Inl e \<Longrightarrow>
   \<exists>pre m post. msgs = pre @ m # post \<and> (\<forall>x \<in> set pre. message_ok x) \<and> nullish m"
proof (induction msgs)
  case Nil
  then show ?case by simp
next
  case (Cons m rest)
  show ?case
  proof (cases "nullish m")
    case True
    then have "m # rest = [] @ m # rest \<and> (\<forall>x \<in> set []. message_ok x) \<and> nullish m" by simp
    then show ?thesis by blast
  next
    case False
    show ?thesis
    proof (cases "message_ok m")
      case True
      then have "check_messages rest = Inl e"
        using Cons.prems by (simp add: check_messages_step_ok del: check_messages.simps(2))
      from Cons.IH [OF this] obtain pre x post where
        r: "rest = pre @ x # post" "\<forall>y \<in> set pre. message_ok y" "nullish x" by blast
      have "m # rest = (m # pre) @ x # post \<and> (\<forall>y \<in> set (m # pre). message_ok y) \<and> nullish x"
        using r True by simp
      then show ?thesis by blast
    next
      case notok: False
      then show ?thesis
        using Cons.prems False
        by (simp add: check_messages_step_bad del: check_messages.simps(2))
    qed
  qed
qed

text \<open>The inputs on which the validator throws instead of returning a result.\<close>

lemma validateClaudeRequest_throws_iff:
  "(\<exists>e. validateClaudeRequest tn v b = Inl e) \<longleftrightarrow>
     nullish b \<or>
     (\<exists>pre m post. getp_opt b ''messages'' = JArr (pre @ m # post) \<and>
        (\<forall>x \<in> set pre. message_ok x) \<and> nullish m) \<or>
     (\<exists>msgs. getp_opt b ''messages'' = JArr msgs \<and> msgs \<noteq> [] \<and>
        (\<forall>x \<in> set msgs. message_ok x) \<and> truthy (getp_opt b ''model'') \<and>
        js_includes (allowedModels v) (getp_opt b ''model'') \<and>
        truthy (getp_opt b ''max_tokens'') \<and>
        (\<exists>e. toNumber tn (getp_opt b ''max_tokens'') = Inl e))"
  (is "?L \<longleftrightarrow> ?N \<or> ?M \<or> ?T")
proof
  assume ?L
  then obtain e where e: "validateClaudeRequest tn v b = Inl e" ..
  show "?N \<or> ?M \<or> ?T"
  proof (cases "nullish b")
    case True
    then show ?thesis ..
  next
    case nb: False
    let ?A = "getp_opt b ''messages''"
    have tr: "truthy ?A" "isArray ?A"
      using e nb validate_messages_missing [of b tn v] by auto
    then obtain msgs where M: "?A = JArr msgs" by (cases ?A) simp_all
    have ne: "msgs \<noteq> []"
      using e nb M validate_messages_empty [of b tn v] by auto
    note eq = validate_messages_checked [OF nb M ne, of tn v]
    show ?thesis
    proof (cases "check_messages msgs")
      case (Inl e')
      from check_messages_throws [OF this] M have ?M by blast
      then show ?thesis by blast
    next
      case (Inr r)
      then have none: "r = None" and cm: "check_model tn v b = Inl e"
        using e eq by (auto split: option.splits)
      have ok: "\<forall>x \<in> set msgs. message_ok x"
      proof (rule ccontr)
        assume "\<not> (\<forall>x \<in> set msgs. message_ok x)"
        then have bad: "\<exists>x \<in> set msgs. \<not> message_ok x" by blast
        from split_first_bad [OF bad] obtain pre m post where
          s: "msgs = pre @ m # post" "\<forall>x \<in> set pre. message_ok x" "\<not> message_ok m" by blast
        show False
        proof (cases "nullish m")
          case True
          then show False
            using check_messages_first_null [OF s(2) True, of post] Inr s(1) by simp
        next
          case False
          then show False
            using check_messages_first_bad [OF s(2) False s(3), of post] Inr none s(1) by simp
        qed
      qed
      have mdl: "truthy (getp_opt b ''model'')"
        "js_includes (allowedModels v) (getp_opt b ''model'')"
        "check_max_tokens tn v (getp_opt b ''max_tokens'') = Inl e"
        using cm check_model_eq [OF nb, of tn v] by (auto split: if_splits)
      then have "truthy (getp_opt b ''max_tokens'') \<and>
          (\<exists>e. toNumber tn (getp_opt b ''max_tokens'') = Inl e)"
        using check_max_tokens_throws [of tn v "getp_opt b ''max_tokens''"] by blast
      then have ?T using M ne ok mdl(1,2) by blast
      then show ?thesis by blast
    qed
  qed
next
  assume "?N \<or> ?M \<or> ?T"
  then consider ?N | ?M | ?T by blast
  then show ?L
  proof cases
    case 1
    then show ?thesis by (simp add: validate_nullish_body)
  next
    case 2
    then obtain pre m post where
      M: "getp_opt b ''messages'' = JArr (pre @ m # post)"
      and ok: "\<forall>x \<in> set pre. message_ok x" and nm: "nullish m" by blast
    have nb: "\<not> nullish b" using M by (rule not_nullish_obj)
    have "check_messages (pre @ m # post) = Inl (cannot_read m ''role'')"
      using ok nm by (rule check_messages_first_null)
    then show ?thesis
      using validate_messages_checked [OF nb M, of tn v] by simp
  next
    case 3
    then obtain msgs e where
      M: "getp_opt b ''messages'' = JArr msgs" and ne: "msgs \<noteq> []"
      and ok: "\<forall>x \<in> set msgs. message_ok x"
      and mdl: "truthy (getp_opt b ''model'')"
        "js_includes (allowedModels v) (getp_opt b ''model'')"
      and mt: "truthy (getp_opt b ''max_tokens'')"
        "toNumber tn (getp_opt b ''max_tokens'') = Inl e" by blast
    have nb: "\<not> nullish b" using M by (rule not_nullish_obj)
    have "\<exists>e. check_max_tokens tn v (getp_opt b ''max_tokens'') = Inl e"
      using check_max_tokens_throws [of tn v "getp_opt b ''max_tokens''"] mt by blast
    then obtain e' where "check_max_tokens tn v (getp_opt b ''max_tokens'') = Inl e'" ..
    then have "check_model tn v b = Inl e'"
      using check_model_eq [OF nb, of tn v] mdl by simp
    moreover have "check_messages msgs = Inr None"
      using ok by (rule check_messages_all_ok)
    ultimately show ?thesis
      using validate_messages_checked [OF nb M ne, of tn v] by simp
  qed
qed

text \<open>The order of the rules, on a body that is neither \<open>null\<close> nor \<open>undefined\<close>.\<close>

lemma validateClaudeRequest_order:
  fixes b :: jsval
  defines "M \<equiv> getp_opt b ''messages''" and "model \<equiv> getp_opt b ''model''"
    and "mt \<equiv> getp_opt b ''max_tokens''"
  assumes nb: "\<not> nullish b"
  shows
    "(\<not> truthy M \<or> \<not> isArray M \<longrightarrow>
        validateClaudeRequest tn v b = Inr (invalid ''Missing or invalid 'messages' array'')) \<and>
     (M = JArr [] \<longrightarrow>
        validateClaudeRequest tn v b = Inr (invalid ''Messages array cannot be empty'')) \<and>
     (\<forall>pre m post. M = JArr (pre @ m # post) \<and> (\<forall>x \<in> set pre. message_ok x) \<and>
        \<not> nullish m \<and> \<not> message_ok m \<longrightarrow>
        validateClaudeRequest tn v b = Inr (invalid (message_reason m))) \<and>
     (\<forall>msgs. M = JArr msgs \<and> msgs \<noteq> [] \<and> (\<forall>x \<in> set msgs. message_ok x) \<longrightarrow>
        validateClaudeRequest tn v b =
          (if \<not> truthy model then Inr (invalid ''Missing 'model' field'')
           else if \<not> js_includes (allowedModels v) model
           then Inr (invalid (''Invalid model. Allowed models: '' @ join '', '' (allowedModels v)))
           else check_max_tokens tn v mt))"
proof (intro conjI allI impI)
  assume "\<not> truthy M \<or> \<not> isArray M"
  then show "validateClaudeRequest tn v b = Inr (invalid ''Missing or invalid 'messages' array'')"
    unfolding M_def using nb by (intro validate_messages_missing)
next
  assume "M = JArr []"
  then show "validateClaudeRequest tn v b = Inr (invalid ''Messages array cannot be empty'')"
    unfolding M_def using nb by (intro validate_messages_empty)
next
  fix pre m post
  assume a: "M = JArr (pre @ m # post) \<and> (\<forall>x \<in> set pre. message_ok x) \<and>
        \<not> nullish m \<and> \<not> message_ok m"
  then have "check_messages (pre @ m # post) = Inr (Some (invalid (message_reason m)))"
    by (intro check_messages_first_bad) simp_all
  then show "validateClaudeRequest tn v b = Inr (invalid (message_reason m))"
    using a validate_messages_checked [OF nb, of "pre @ m # post" tn v]
    by (simp add: M_def)
next
  fix msgs
  assume a: "M = JArr msgs \<and> msgs \<noteq> [] \<and> (\<forall>x \<in> set msgs. message_ok x)"
  then have "check_messages msgs = Inr None"
    by (intro check_messages_all_ok) simp
  then show "validateClaudeRequest tn v b =
          (if \<not> truthy model then Inr (invalid ''Missing 'model' field'')
           else if \<not> js_includes (allowedModels v) model
           then Inr (invalid (''Invalid model. Allowed models: '' @ join '', '' (allowedModels v)))
           else check_max_tokens tn v mt)"
    using a validate_messages_checked [OF nb, of msgs tn v] check_model_eq [OF nb, of tn v]
    by (simp add: M_def model_def mt_def)
qed

text \<open>For a numeric \<open>max_tokens\<close> in a body that passes the rules on messages and model:
  the value is accepted when it is 0 or lies between 1 and the bound.\<close>

lemma validateClaudeRequest_numeric_max_tokens:
  assumes "\<not> nullish b" "getp_opt b ''messages'' = JArr msgs" "msgs \<noteq> []"
    "\<forall>x \<in> set msgs. message_ok x" "truthy (getp_opt b ''model'')"
    "js_includes (allowedModels v) (getp_opt b ''model'')"
    "getp_opt b ''max_tokens'' = JNum q"
  shows "validateClaudeRequest tn v b =
           (if q = 0 \<or> (1 \<le> q \<and> q \<le> maxTokensLimit v) then Inr ok_result
            else Inr (invalid (maxTokensError v)))"
  using validateClaudeRequest_order [OF assms(1), of tn v] assms(2-7)
  by (simp add: check_max_tokens_number)

text \<open>
  \<^bold>\<open>Claim C2.\<close> The validator checks its rules in a fixed order and the first failure
  wins: a missing or non-array \<open>messages\<close>, an empty \<open>messages\<close>, a message without a
  \<open>role\<close> or with empty \<open>content\<close> or with a role other than \<open>user\<close> and \<open>assistant\<close>, a
  missing or unlisted \<open>model\<close> each yield an invalid result, for every input body. For
  bodies and messages that are neither \<open>null\<close> nor \<open>undefined\<close> this is
  \<open>validateClaudeRequest_order\<close> above. A message that is \<open>null\<close> lacks a role, and there
  the validator returns no result at all: reading \<open>msg.role\<close> throws a \<open>TypeError\<close>, for the
  body \<open>{"messages": [null]}\<close> as for every body whose first message that does not pass is
  \<open>null\<close>.
\<close>

theorem validateClaudeRequest_null_message:
  "validateClaudeRequest tn v (JObj [(''messages'', JArr [JNull])]) =
     Inl (cannot_read JNull ''role'') \<and>
   validateClaudeRequest tn v
     (JObj [(''model'', JStr ''claude-3-haiku-20240307''),
            (''messages'', JArr [JObj [(''role'', JStr ''user''), (''content'', JStr ''Hi'')],
                                 JNull])]) =
     Inl (cannot_read JNull ''role'')"
  by (simp add: validateClaudeRequest_def)

text \<open>
  \<^bold>\<open>Claim C6.\<close> A body that passes the rules on messages and model and carries
  \<open>max_tokens\<close> is valid exactly when the value lies between 1 and the bound (4096 in the
  first version, 8192 in the second); the value 0 is outside the range. The guard
  \<open>body.max_tokens && ...\<close> skips the range check for 0, so both versions accept
  \<open>max_tokens: 0\<close>, which their own message \<open>max_tokens must be between 1 and ...\<close> excludes.
\<close>

theorem validateClaudeRequest_accepts_zero_max_tokens:
  "validateClaudeRequest tn variant1
     (JObj [(''model'', JStr ''claude-3-haiku-20240307''),
            (''max_tokens'', JNum 0),
            (''messages'', JArr [JObj [(''role'', JStr ''user''), (''content'', JStr ''Hi'')]])]) =
     Inr \<lparr>valid = True, error = None\<rparr> \<and>
   validateClaudeRequest tn variant2
     (JObj [(''model'', JStr ''claude-3-haiku-20240307''),
            (''max_tokens'', JNum 0),
            (''messages'', JArr [JObj [(''role'', JStr ''user''), (''content'', JStr ''Hi'')]])]) =
     Inr \<lparr>valid = True, error = None\<rparr>"
  by (simp add: validateClaudeRequest_def check_model_def check_max_tokens_def variant1_def
      variant2_def ok_result_def)

text \<open>
  \<^bold>\<open>Claim C9.\<close> The validator is total: every input value, \<open>null\<close> and \<open>undefined\<close>
  included, gets a result \<open>{valid: true}\<close> or \<open>{valid: false, reason}\<close> and nothing is
  thrown. On \<open>undefined\<close> (a request without a body) and on \<open>null\<close> the first statement,
  \<open>body.messages\<close>, throws a \<open>TypeError\<close>; \<open>validateClaudeRequest_throws_iff\<close> above gives
  all inputs on which the validator throws.
\<close>

theorem validateClaudeRequest_throws_on_nullish_body:
  "validateClaudeRequest tn v JUndefined = Inl (cannot_read JUndefined ''messages'') \<and>
   validateClaudeRequest tn v JNull = Inl (cannot_read JNull ''messages'')"
  by (simp add: validateClaudeRequest_def)

section \<open>Properties of the error normalizer\<close>

lemma map_of_filter_other: "map_of (filter (\<lambda>kv. fst kv \<noteq> n) hs) n = None"
  by (induction hs) auto

lemma header_of_setHeader_same [simp]: "header_of (setHeader n v res) n = Some v"
  by (simp add: header_of_def setHeader_def map_add_def map_of_filter_other)

lemma map_of_filter_keep: "m \<noteq> n \<Longrightarrow> map_of (filter (\<lambda>kv. fst kv \<noteq> n) hs) m = map_of hs m"
  by (induction hs) auto

lemma header_of_setHeader_other: "m \<noteq> n \<Longrightarrow> header_of (setHeader n v res) m = header_of res m"
  by (auto simp: header_of_def setHeader_def map_add_def map_of_filter_keep split: option.splits)

lemma header_of_json [simp]: "header_of (json b res) n = header_of res n"
  by (simp add: header_of_def json_def)

lemma header_of_set_status [simp]: "header_of (set_status c res) n = header_of res n"
  by (simp add: header_of_def set_status_def)

lemma statusCode_json [simp]: "statusCode (json b res) = statusCode res"
  by (simp add: json_def)

lemma statusCode_set_status [simp]: "statusCode (set_status c res) = c"
  by (simp add: set_status_def)

lemma body_field_json [simp]: "body_field (json (JObj kvs) res) k = map_of kvs k"
  by (simp add: body_field_def json_def)

lemma api_log_version1: "\<not> version2 v \<Longrightarrow>
    api_log v r = Inr \<lparr>logText = ''Claude API error '' @ show_nat (status r) @ '':'',
                       logDetail = Detail (data r)\<rparr>"
  by (simp add: api_log_def)

lemma api_log_version2: "version2 v \<Longrightarrow> \<not> nullish (data r) \<Longrightarrow>
    api_log v r = Inr \<lparr>logText = ''Claude API error '' @ show_nat (status r),
                       logDetail = ApiFailure (status r)
                         (getp_opt (getp_opt (data r) ''error'') ''type'')
                         (getp_opt (getp_opt (data r) ''error'') ''message'') (headers r)\<rparr>"
  by (simp add: api_log_def getp_not_nullish)

lemma api_log_throws: "version2 v \<Longrightarrow> nullish (data r) \<Longrightarrow>
    api_log v r = Inl (cannot_read (data r) ''error'')"
  by (simp add: api_log_def getp_nullish)

lemma api_log_returns:
  "version2 v \<longrightarrow> \<not> nullish (data r) \<Longrightarrow> \<exists>line. api_log v r = Inr line"
  by (cases "version2 v") (simp_all add: api_log_version1 api_log_version2)

lemma handleProxyError_429:
  assumes "status r = 429" "\<not> nullish (data r)"
  shows "snd (handleProxyError v (AxiosError (Some r) code) res) =
    Inr (json (JObj
      [(''error'', JStr ''rate_limit_exceeded''),
       (''message'', js_or (getp_opt (getp_opt (data r) ''error'') ''message'')
                           (JStr ''Claude API rate limit reached'')),
       (''retry_after'', JStr (header_or (headers r) ''retry-after'' ''60''))])
      (set_status 429 (setHeader ''Retry-After'' (header_or (headers r) ''retry-after'' ''60'') res)))"
proof -
  obtain line where "api_log v r = Inr line"
    using api_log_returns [of v r] assms(2) by blast
  then show ?thesis
    using assms by (simp add: handleProxyError_def getp_not_nullish Let_def)
qed

lemma handleProxyError_529:
  assumes "status r = 529" "version2 v \<longrightarrow> \<not> nullish (data r)"
  shows "snd (handleProxyError v (AxiosError (Some r) code) res) =
    Inr (json (JObj
      [(''error'', JStr ''service_unavailable''),
       (''message'', JStr ''Claude API is experiencing high traffic'')])
      (set_status 503 (setHeader ''Retry-After'' ''60'' res)))"
proof -
  obtain line where "api_log v r = Inr line"
    using api_log_returns [OF assms(2)] by blast
  then show ?thesis
    using assms(1) by (simp add: handleProxyError_def)
qed

text \<open>The second version throws on every provider response whose body is \<open>null\<close> or
  \<open>undefined\<close>, whatever the status, and logs nothing.\<close>

lemma handleProxyError_version2_null_body:
  assumes "version2 v" "nullish (data r)"
  shows "handleProxyError v (AxiosError (Some r) code) res =
           ([], Inl (cannot_read (data r) ''error''))"
  using assms by (simp add: handleProxyError_def api_log_throws)

lemma handleProxyError_refused:
  "handleProxyError v (AxiosError None (Some ''ECONNREFUSED'')) res =
    ([], Inr (json (JObj
      [(''error'', JStr ''service_unavailable''),
       (''message'', JStr ''Could not connect to Claude API'')])
      (set_status 503 res)))"
  by (simp add: handleProxyError_def)

lemma handleProxyError_other:
  "handleProxyError v (JsError e) res = ([unexpected_log v (JsError e)], Inr (generic_500 res))"
  by (simp add: handleProxyError_def generic_500_def)

lemma handleProxyError_unknown_code:
  "code \<noteq> Some ''ECONNABORTED'' \<Longrightarrow> code \<noteq> Some ''ECONNREFUSED'' \<Longrightarrow> code \<noteq> Some ''ENOTFOUND'' \<Longrightarrow>
   handleProxyError v (AxiosError None code) res =
     ([unexpected_log v (AxiosError None code)], Inr (generic_500 res))"
  by (simp add: handleProxyError_def generic_500_def)

text \<open>
  \<^bold>\<open>Claim C3.\<close> In both versions of the file, \<open>handleProxyError\<close> normalizes a provider
  response with status 429 whose body is neither \<open>null\<close> nor \<open>undefined\<close> to status 429
  with \<open>error = "rate_limit_exceeded"\<close> and a \<open>retry_after\<close> taken from the provider's
  \<open>retry-after\<close> header, or \<open>"60"\<close> when the header is absent or empty; the same value is
  set as the \<open>Retry-After\<close> header. A response with status 529 becomes status 503 with
  \<open>error = "service_unavailable"\<close> and the \<open>Retry-After\<close> header \<open>"60"\<close>, and its JSON
  body has no \<open>retry_after\<close> field; in the second version this needs a body that is neither
  \<open>null\<close> nor \<open>undefined\<close>. A transport error with code \<open>ECONNREFUSED\<close> becomes status
  503 with \<open>error = "service_unavailable"\<close>.
\<close>

theorem handleProxyError_mapping:
  fixes r :: axios_response and res :: response and v :: variant
  shows
    "(\<forall>h. status r = 429 \<and> \<not> nullish (data r) \<and>
          map_of (headers r) ''retry-after'' = Some h \<and> h \<noteq> [] \<longrightarrow>
        reply_status (snd (handleProxyError v (AxiosError (Some r) code) res)) = Some 429 \<and>
        reply_field (snd (handleProxyError v (AxiosError (Some r) code) res)) ''error'' =
          Some (JStr ''rate_limit_exceeded'') \<and>
        reply_field (snd (handleProxyError v (AxiosError (Some r) code) res)) ''retry_after'' =
          Some (JStr h) \<and>
        reply_header (snd (handleProxyError v (AxiosError (Some r) code) res)) ''Retry-After'' =
          Some h) \<and>
     (status r = 429 \<and> \<not> nullish (data r) \<and>
        (map_of (headers r) ''retry-after'' = None \<or>
         map_of (headers r) ''retry-after'' = Some []) \<longrightarrow>
        reply_status (snd (handleProxyError v (AxiosError (Some r) code) res)) = Some 429 \<and>
        reply_field (snd (handleProxyError v (AxiosError (Some r) code) res)) ''error'' =
          Some (JStr ''rate_limit_exceeded'') \<and>
        reply_field (snd (handleProxyError v (AxiosError (Some r) code) res)) ''retry_after'' =
          Some (JStr ''60'') \<and>
        reply_header (snd (handleProxyError v (AxiosError (Some r) code) res)) ''Retry-After'' =
          Some ''60'') \<and>
     (status r = 529 \<and> (version2 v \<longrightarrow> \<not> nullish (data r)) \<longrightarrow>
        reply_status (snd (handleProxyError v (AxiosError (Some r) code) res)) = Some 503 \<and>
        reply_field (snd (handleProxyError v (AxiosError (Some r) code) res)) ''error'' =
          Some (JStr ''service_unavailable'') \<and>
        reply_header (snd (handleProxyError v (AxiosError (Some r) code) res)) ''Retry-After'' =
          Some ''60'' \<and>
        reply_field (snd (handleProxyError v (AxiosError (Some r) code) res)) ''retry_after'' =
          None) \<and>
     reply_status (snd (handleProxyError v (AxiosError None (Some ''ECONNREFUSED'')) res)) =
       Some 503 \<and>
     reply_field (snd (handleProxyError v (AxiosError None (Some ''ECONNREFUSED'')) res)) ''error'' =
       Some (JStr ''service_unavailable'')"
proof (intro conjI allI impI)
  fix h
  assume a: "status r = 429 \<and> \<not> nullish (data r) \<and>
          map_of (headers r) ''retry-after'' = Some h \<and> h \<noteq> []"
  then have ra: "header_or (headers r) ''retry-after'' ''60'' = h"
    by (simp add: header_or_def)
  have eq: "snd (handleProxyError v (AxiosError (Some r) code) res) =
    Inr (json (JObj
      [(''error'', JStr ''rate_limit_exceeded''),
       (''message'', js_or (getp_opt (getp_opt (data r) ''error'') ''message'')
                           (JStr ''Claude API rate limit reached'')),
       (''retry_after'', JStr h)])
      (set_status 429 (setHeader ''Retry-After'' h res)))"
    using handleProxyError_429 [of r v code res] a ra by simp
  show "reply_status (snd (handleProxyError v (AxiosError (Some r) code) res)) = Some 429"
    by (simp add: eq reply_status_def)
  show "reply_field (snd (handleProxyError v (AxiosError (Some r) code) res)) ''error'' =
          Some (JStr ''rate_limit_exceeded'')"
    by (simp add: eq reply_field_def)
  show "reply_field (snd (handleProxyError v (AxiosError (Some r) code) res)) ''retry_after'' =
          Some (JStr h)"
    by (simp add: eq reply_field_def)
  show "reply_header (snd (handleProxyError v (AxiosError (Some r) code) res)) ''Retry-After'' =
          Some h"
    by (simp add: eq reply_header_def)
next
  assume a: "status r = 429 \<and> \<not> nullish (data r) \<and>
        (map_of (headers r) ''retry-after'' = None \<or>
         map_of (headers r) ''retry-after'' = Some [])"
  then have ra: "header_or (headers r) ''retry-after'' ''60'' = ''60''"
    by (auto simp: header_or_def)
  have eq: "snd (handleProxyError v (AxiosError (Some r) code) res) =
    Inr (json (JObj
      [(''error'', JStr ''rate_limit_exceeded''),
       (''message'', js_or (getp_opt (getp_opt (data r) ''error'') ''message'')
                           (JStr ''Claude API rate limit reached'')),
       (''retry_after'', JStr ''60'')])
      (set_status 429 (setHeader ''Retry-After'' ''60'' res)))"
    using handleProxyError_429 [of r v code res] a ra by simp
  show "reply_status (snd (handleProxyError v (AxiosError (Some r) code) res)) = Some 429"
    by (simp add: eq reply_status_def)
  show "reply_field (snd (handleProxyError v (AxiosError (Some r) code) res)) ''error'' =
          Some (JStr ''rate_limit_exceeded'')"
    by (simp add: eq reply_field_def)
  show "reply_field (snd (handleProxyError v (AxiosError (Some r) code) res)) ''retry_after'' =
          Some (JStr ''60'')"
    by (simp add: eq reply_field_def)
  show "reply_header (snd (handleProxyError v (AxiosError (Some r) code) res)) ''Retry-After'' =
          Some ''60''"
    by (simp add: eq reply_header_def)
next
  assume a: "status r = 529 \<and> (version2 v \<longrightarrow> \<not> nullish (data r))"
  then have eq: "snd (handleProxyError v (AxiosError (Some r) code) res) =
    Inr (json (JObj
      [(''error'', JStr ''service_unavailable''),
       (''message'', JStr ''Claude API is experiencing high traffic'')])
      (set_status 503 (setHeader ''Retry-After'' ''60'' res)))"
    by (intro handleProxyError_529) simp_all
  show "reply_status (snd (handleProxyError v (AxiosError (Some r) code) res)) = Some 503"
    by (simp add: eq reply_status_def)
  show "reply_field (snd (handleProxyError v (AxiosError (Some r) code) res)) ''error'' =
          Some (JStr ''service_unavailable'')"
    by (simp add: eq reply_field_def)
  show "reply_header (snd (handleProxyError v (AxiosError (Some r) code) res)) ''Retry-After'' =
          Some ''60''"
    by (simp add: eq reply_header_def)
  show "reply_field (snd (handleProxyError v (AxiosError (Some r) code) res)) ''retry_after'' =
          None"
    by (simp add: eq reply_field_def)
next
  show "reply_status (snd (handleProxyError v (AxiosError None (Some ''ECONNREFUSED'')) res)) =
       Some 503"
    by (simp add: handleProxyError_refused reply_status_def)
  show "reply_field (snd (handleProxyError v (AxiosError None (Some ''ECONNREFUSED'')) res)) ''error'' =
       Some (JStr ''service_unavailable'')"
    by (simp add: handleProxyError_refused reply_field_def)
qed

theorem handleProxyError_mapping_witness:
  "reply_status (snd (handleProxyError variant2 (AxiosError
       (Some \<lparr>status = 429, headers = [(''retry-after'', ''30'')],
              data = JObj [(''error'', JObj [(''type'', JStr ''rate_limit_error'')])]\<rparr>) None)
       new_response)) = Some 429 \<and>
   reply_field (snd (handleProxyError variant2 (AxiosError
       (Some \<lparr>status = 429, headers = [(''retry-after'', ''30'')],
              data = JObj [(''error'', JObj [(''type'', JStr ''rate_limit_error'')])]\<rparr>) None)
       new_response)) ''retry_after'' = Some (JStr ''30'') \<and>
   reply_field (snd (handleProxyError variant1 (AxiosError
       (Some \<lparr>status = 429, headers = [], data = JStr []\<rparr>) None)
       new_response)) ''retry_after'' = Some (JStr ''60'') \<and>
   reply_status (snd (handleProxyError variant1 (AxiosError
       (Some \<lparr>status = 529, headers = [], data = JNull\<rparr>) None)
       new_response)) = Some 503 \<and>
   reply_header (snd (handleProxyError variant2 (AxiosError
       (Some \<lparr>status = 529, headers = [], data = JObj []\<rparr>) None)
       new_response)) ''Retry-After'' = Some ''60''"
proof -
  let ?r1 = "\<lparr>status = 429, headers = [(''retry-after'', ''30'')],
              data = JObj [(''error'', JObj [(''type'', JStr ''rate_limit_error'')])]\<rparr>"
  let ?r2 = "\<lparr>status = 429, headers = [], data = JStr []\<rparr>"
  let ?r3 = "\<lparr>status = 529, headers = [], data = JNull\<rparr>"
  let ?r4 = "\<lparr>status = 529, headers = [], data = JObj []\<rparr>"
  have 1: "reply_status (snd (handleProxyError variant2 (AxiosError (Some ?r1) None) new_response)) =
        Some 429 \<and>
      reply_field (snd (handleProxyError variant2 (AxiosError (Some ?r1) None) new_response))
        ''retry_after'' = Some (JStr ''30'')"
    using handleProxyError_mapping
      [where r = ?r1 and v = variant2 and code = None and res = new_response,
       THEN conjunct1, THEN spec, of "''30''"]
    by (simp add: nullish_def)
  have 2: "reply_field (snd (handleProxyError variant1 (AxiosError (Some ?r2) None) new_response))
        ''retry_after'' = Some (JStr ''60'')"
    using handleProxyError_mapping
      [where r = ?r2 and v = variant1 and code = None and res = new_response,
       THEN conjunct2, THEN conjunct1]
    by (simp add: nullish_def)
  have 3: "reply_status (snd (handleProxyError variant1 (AxiosError (Some ?r3) None) new_response)) =
        Some 503"
    using handleProxyError_mapping
      [where r = ?r3 and v = variant1 and code = None and res = new_response,
       THEN conjunct2, THEN conjunct2, THEN conjunct1]
    by (simp add: variant1_def)
  have 4: "reply_header (snd (handleProxyError variant2 (AxiosError (Some ?r4) None) new_response))
        ''Retry-After'' = Some ''60''"
    using handleProxyError_mapping
      [where r = ?r4 and v = variant2 and code = None and res = new_response,
       THEN conjunct2, THEN conjunct2, THEN conjunct1]
    by (simp add: nullish_def)
  from 1 2 3 4 show ?thesis by blast
qed

theorem handleProxyError_529_counterexample:
  "reply_status (snd (handleProxyError variant1 (AxiosError
       (Some \<lparr>status = 529, headers = [(''retry-after'', ''60'')],
              data = JObj [(''error'', JObj [(''type'', JStr ''overloaded_error''),
                                             (''message'', JStr ''Overloaded'')])]\<rparr>) None)
       new_response)) = Some 503 \<and>
   reply_field (snd (handleProxyError variant1 (AxiosError
       (Some \<lparr>status = 529, headers = [(''retry-after'', ''60'')],
              data = JObj [(''error'', JObj [(''type'', JStr ''overloaded_error''),
                                             (''message'', JStr ''Overloaded'')])]\<rparr>) None)
       new_response)) ''retry_after'' = None \<and>
   reply_field (snd (handleProxyError variant2 (AxiosError
       (Some \<lparr>status = 529, headers = [(''retry-after'', ''60'')],
              data = JObj [(''error'', JObj [(''type'', JStr ''overloaded_error''),
                                             (''message'', JStr ''Overloaded'')])]\<rparr>) None)
       new_response)) ''retry_after'' = None"
  by (simp add: handleProxyError_def api_log_def variant1_def variant2_def
      reply_status_def reply_field_def)

section \<open>Properties of the proxy handler\<close>

lemma calls_caught [simp]: "calls (caught v err res store cs) = cs"
  by (simp add: caught_def)

lemma sent_caught [simp]: "sent (caught v err res store cs) = snd (handleProxyError v err res)"
  by (simp add: caught_def)

lemma logged_caught [simp]: "logged (caught v err res store cs) = fst (handleProxyError v err res)"
  by (simp add: caught_def)

lemma store_after_caught [simp]: "store_after (caught v err res store cs) = store"
  by (simp add: caught_def)

lemma calls_forward_response [simp]: "calls (forward_response v response res store cs) = cs"
  by (simp add: forward_response_def split: sum.splits)

lemma handler_options:
  "httpMethod req = ''OPTIONS'' \<Longrightarrow>
   handler tn v env upstream now store req =
     \<lparr>sent = Inr (end_response (set_status 200 (cors new_response))), logged = [],
      store_after = store, calls = []\<rparr>"
  by (simp add: handler_def)

lemma handler_not_post:
  "httpMethod req \<noteq> ''OPTIONS'' \<Longrightarrow> httpMethod req \<noteq> ''POST'' \<Longrightarrow>
   handler tn v env upstream now store req =
     \<lparr>sent = Inr (json (JObj
        [(''error'', JStr ''method_not_allowed''),
         (''message'', JStr ''Only POST requests are supported'')])
        (set_status 405 (cors new_response))),
      logged = [], store_after = store, calls = []\<rparr>"
  by (simp add: handler_def)

lemma handler_limited:
  "httpMethod req = ''POST'' \<Longrightarrow> \<not> admitted env now store req \<Longrightarrow>
   handler tn v env upstream now store req =
     \<lparr>sent = Inr (json (JObj
        [(''error'', JStr ''rate_limit_exceeded''),
         (''message'', JStr ''Too many requests. Please try again later.'')])
        (set_status 429 (setHeader ''Retry-After'' ''60'' (cors new_response)))),
      logged = [],
      store_after = snd (checkRateLimit (RATE_LIMIT_REQUESTS env) (RATE_LIMIT_WINDOW_MS env)
                           now store (clientIdOf req)),
      calls = []\<rparr>"
  by (simp add: handler_def admitted_def Let_def)

lemma handler_validator_throws:
  "httpMethod req = ''POST'' \<Longrightarrow> admitted env now store req \<Longrightarrow>
   validateClaudeRequest tn v (body req) = Inl e \<Longrightarrow>
   handler tn v env upstream now store req =
     \<lparr>sent = Inr (generic_500 (cors new_response)),
      logged = [unexpected_log v (JsError e)],
      store_after = snd (checkRateLimit (RATE_LIMIT_REQUESTS env) (RATE_LIMIT_WINDOW_MS env)
                           now store (clientIdOf req)),
      calls = []\<rparr>"
  by (simp add: handler_def admitted_def Let_def caught_def handleProxyError_other)

lemma handler_invalid:
  "httpMethod req = ''POST'' \<Longrightarrow> admitted env now store req \<Longrightarrow>
   validateClaudeRequest tn v (body req) = Inr r \<Longrightarrow> \<not> valid r \<Longrightarrow>
   handler tn v env upstream now store req =
     \<lparr>sent = Inr (json (JObj
        [(''error'', JStr ''invalid_request''),
         (''message'', (case error r of None \<Rightarrow> JUndefined | Some reason \<Rightarrow> JStr reason))])
        (set_status 400 (cors new_response))),
      logged = [],
      store_after = snd (checkRateLimit (RATE_LIMIT_REQUESTS env) (RATE_LIMIT_WINDOW_MS env)
                           now store (clientIdOf req)),
      calls = []\<rparr>"
  by (simp add: handler_def admitted_def Let_def)

lemma handler_no_key:
  "httpMethod req = ''POST'' \<Longrightarrow> admitted env now store req \<Longrightarrow>
   validateClaudeRequest tn v (body req) = Inr r \<Longrightarrow> valid r \<Longrightarrow>
   ANTHROPIC_API_KEY env = None \<or> ANTHROPIC_API_KEY env = Some [] \<Longrightarrow>
   handler tn v env upstream now store req =
     \<lparr>sent = Inr (json (JObj
        [(''error'', JStr ''server_configuration_error''),
         (''message'', JStr ''API key not configured on server'')])
        (set_status 500 (cors new_response))),
      logged = [\<lparr>logText = ''ANTHROPIC_API_KEY not configured'', logDetail = NoDetail\<rparr>],
      store_after = snd (checkRateLimit (RATE_LIMIT_REQUESTS env) (RATE_LIMIT_WINDOW_MS env)
                           now store (clientIdOf req)),
      calls = []\<rparr>"
  by (auto simp: handler_def admitted_def Let_def)

lemma handler_forwards:
  "httpMethod req = ''POST'' \<Longrightarrow> admitted env now store req \<Longrightarrow>
   validateClaudeRequest tn v (body req) = Inr r \<Longrightarrow> valid r \<Longrightarrow>
   ANTHROPIC_API_KEY env = Some k \<Longrightarrow> k \<noteq> [] \<Longrightarrow>
   handler tn v env upstream now store req =
     (case upstream (body req) k of
        Inl err \<Rightarrow>
          caught v err (cors new_response)
            (snd (checkRateLimit (RATE_LIMIT_REQUESTS env) (RATE_LIMIT_WINDOW_MS env)
                    now store (clientIdOf req)))
            [(body req, k)]
      | Inr response \<Rightarrow>
          forward_response v response (cors new_response)
            (snd (checkRateLimit (RATE_LIMIT_REQUESTS env) (RATE_LIMIT_WINDOW_MS env)
                    now store (clientIdOf req)))
            [(body req, k)])"
  by (simp add: handler_def admitted_def Let_def)

lemma handler_forwards_calls:
  "httpMethod req = ''POST'' \<Longrightarrow> admitted env now store req \<Longrightarrow>
   validateClaudeRequest tn v (body req) = Inr r \<Longrightarrow> valid r \<Longrightarrow>
   ANTHROPIC_API_KEY env = Some k \<Longrightarrow> k \<noteq> [] \<Longrightarrow>
   calls (handler tn v env upstream now store req) = [(body req, k)]"
  by (simp add: handler_forwards split: sum.splits)

lemma handler_calls_cases:
  "calls (handler tn v env upstream now store req) \<noteq> [] \<Longrightarrow>
   httpMethod req = ''POST'' \<and> admitted env now store req \<and>
   (\<exists>r. validateClaudeRequest tn v (body req) = Inr r \<and> valid r) \<and>
   (\<exists>k. ANTHROPIC_API_KEY env = Some k \<and> k \<noteq> [] \<and>
        calls (handler tn v env upstream now store req) = [(body req, k)])"
  by (auto simp: handler_def admitted_def Let_def split: sum.splits option.splits if_splits)

text \<open>
  The order of the checks, in both versions. A request that is neither OPTIONS nor POST
  gets 405 and the rate limiter is not consulted (the store is as before); a POST the
  limiter rejects gets 429 whatever its payload and the credential are; an admitted POST
  on which the validator returns a failure gets 400 whatever the credential is; an
  admitted POST on which the validator throws gets the generic 500 of the normalizer,
  and the thrown error is logged; an admitted, valid POST with an absent or empty
  credential gets 500 \<open>server_configuration_error\<close>. In each of these cases no outbound
  call is issued. A call is issued, once and with the request's body and the credential,
  exactly when all four checks pass.
\<close>

lemma handler_stage_order:
  fixes req :: request and env :: env and store :: rl_store and now :: int
    and tn :: "jsval \<Rightarrow> js_error + rat option" and v :: variant
    and upstream :: "jsval \<Rightarrow> string \<Rightarrow> thrown + axios_response"
  defines "out \<equiv> handler tn v env upstream now store req"
    and "val \<equiv> validateClaudeRequest tn v (body req)"
  shows
    "(httpMethod req \<noteq> ''OPTIONS'' \<and> httpMethod req \<noteq> ''POST'' \<longrightarrow>
        reply_status (sent out) = Some 405 \<and>
        reply_field (sent out) ''error'' = Some (JStr ''method_not_allowed'') \<and>
        store_after out = store \<and> calls out = []) \<and>
     (httpMethod req = ''POST'' \<and> \<not> admitted env now store req \<longrightarrow>
        reply_status (sent out) = Some 429 \<and>
        reply_field (sent out) ''error'' = Some (JStr ''rate_limit_exceeded'') \<and>
        calls out = []) \<and>
     (\<forall>r. httpMethod req = ''POST'' \<and> admitted env now store req \<and> val = Inr r \<and> \<not> valid r \<longrightarrow>
        reply_status (sent out) = Some 400 \<and>
        reply_field (sent out) ''error'' = Some (JStr ''invalid_request'') \<and>
        calls out = []) \<and>
     (\<forall>e. httpMethod req = ''POST'' \<and> admitted env now store req \<and> val = Inl e \<longrightarrow>
        sent out = Inr (generic_500 (cors new_response)) \<and>
        logged out = [unexpected_log v (JsError e)] \<and>
        calls out = []) \<and>
     (\<forall>r. httpMethod req = ''POST'' \<and> admitted env now store req \<and> val = Inr r \<and> valid r \<and>
          (ANTHROPIC_API_KEY env = None \<or> ANTHROPIC_API_KEY env = Some []) \<longrightarrow>
        reply_status (sent out) = Some 500 \<and>
        reply_field (sent out) ''error'' = Some (JStr ''server_configuration_error'') \<and>
        calls out = []) \<and>
     (\<forall>r k. httpMethod req = ''POST'' \<and> admitted env now store req \<and> val = Inr r \<and> valid r \<and>
          ANTHROPIC_API_KEY env = Some k \<and> k \<noteq> [] \<longrightarrow>
        calls out = [(body req, k)]) \<and>
     (calls out \<noteq> [] \<longrightarrow>
        httpMethod req = ''POST'' \<and> admitted env now store req \<and>
        (\<exists>r. val = Inr r \<and> valid r) \<and>
        (\<exists>k. ANTHROPIC_API_KEY env = Some k \<and> k \<noteq> []))"
proof (intro conjI allI impI)
  assume a: "httpMethod req \<noteq> ''OPTIONS'' \<and> httpMethod req \<noteq> ''POST''"
  then have eq: "out = \<lparr>sent = Inr (json (JObj
        [(''error'', JStr ''method_not_allowed''),
         (''message'', JStr ''Only POST requests are supported'')])
        (set_status 405 (cors new_response))),
      logged = [], store_after = store, calls = []\<rparr>"
    unfolding out_def by (intro handler_not_post) simp_all
  show "reply_status (sent out) = Some 405" by (simp add: eq reply_status_def)
  show "reply_field (sent out) ''error'' = Some (JStr ''method_not_allowed'')"
    by (simp add: eq reply_field_def)
  show "store_after out = store" by (simp add: eq)
  show "calls out = []" by (simp add: eq)
next
  assume a: "httpMethod req = ''POST'' \<and> \<not> admitted env now store req"
  then have eq: "out = \<lparr>sent = Inr (json (JObj
        [(''error'', JStr ''rate_limit_exceeded''),
         (''message'', JStr ''Too many requests. Please try again later.'')])
        (set_status 429 (setHeader ''Retry-After'' ''60'' (cors new_response)))),
      logged = [],
      store_after = snd (checkRateLimit (RATE_LIMIT_REQUESTS env) (RATE_LIMIT_WINDOW_MS env)
                           now store (clientIdOf req)),
      calls = []\<rparr>"
    unfolding out_def by (intro handler_limited) simp_all
  show "reply_status (sent out) = Some 429" by (simp add: eq reply_status_def)
  show "reply_field (sent out) ''error'' = Some (JStr ''rate_limit_exceeded'')"
    by (simp add: eq reply_field_def)
  show "calls out = []" by (simp add: eq)
next
  fix r
  assume a: "httpMethod req = ''POST'' \<and> admitted env now store req \<and> val = Inr r \<and> \<not> valid r"
  then have eq: "out = \<lparr>sent = Inr (json (JObj
        [(''error'', JStr ''invalid_request''),
         (''message'', (case error r of None \<Rightarrow> JUndefined | Some reason \<Rightarrow> JStr reason))])
        (set_status 400 (cors new_response))),
      logged = [],
      store_after = snd (checkRateLimit (RATE_LIMIT_REQUESTS env) (RATE_LIMIT_WINDOW_MS env)
                           now store (clientIdOf req)),
      calls = []\<rparr>"
    unfolding out_def val_def by (intro handler_invalid) simp_all
  show "reply_status (sent out) = Some 400" by (simp add: eq reply_status_def)
  show "reply_field (sent out) ''error'' = Some (JStr ''invalid_request'')"
    by (simp add: eq reply_field_def)
  show "calls out = []" by (simp add: eq)
next
  fix e
  assume a: "httpMethod req = ''POST'' \<and> admitted env now store req \<and> val = Inl e"
  then have eq: "out = \<lparr>sent = Inr (generic_500 (cors new_response)),
      logged = [unexpected_log v (JsError e)],
      store_after = snd (checkRateLimit (RATE_LIMIT_REQUESTS env) (RATE_LIMIT_WINDOW_MS env)
                           now store (clientIdOf req)),
      calls = []\<rparr>"
    unfolding out_def val_def by (intro handler_validator_throws) simp_all
  show "sent out = Inr (generic_500 (cors new_response))" by (simp add: eq)
  show "logged out = [unexpected_log v (JsError e)]" by (simp add: eq)
  show "calls out = []" by (simp add: eq)
next
  fix r
  assume a: "httpMethod req = ''POST'' \<and> admitted env now store req \<and> val = Inr r \<and> valid r \<and>
          (ANTHROPIC_API_KEY env = None \<or> ANTHROPIC_API_KEY env = Some [])"
  then have eq: "out = \<lparr>sent = Inr (json (JObj
        [(''error'', JStr ''server_configuration_error''),
         (''message'', JStr ''API key not configured on server'')])
        (set_status 500 (cors new_response))),
      logged = [\<lparr>logText = ''ANTHROPIC_API_KEY not configured'', logDetail = NoDetail\<rparr>],
      store_after = snd (checkRateLimit (RATE_LIMIT_REQUESTS env) (RATE_LIMIT_WINDOW_MS env)
                           now store (clientIdOf req)),
      calls = []\<rparr>"
    unfolding out_def val_def by (intro handler_no_key [of req env now store tn v r]) simp_all
  show "reply_status (sent out) = Some 500" by (simp add: eq reply_status_def)
  show "reply_field (sent out) ''error'' = Some (JStr ''server_configuration_error'')"
    by (simp add: eq reply_field_def)
  show "calls out = []" by (simp add: eq)
next
  fix r k
  assume a: "httpMethod req = ''POST'' \<and> admitted env now store req \<and> val = Inr r \<and> valid r \<and>
          ANTHROPIC_API_KEY env = Some k \<and> k \<noteq> []"
  then show "calls out = [(body req, k)]"
    unfolding out_def val_def
    using handler_forwards_calls [of req env now store tn v r k upstream] by simp
next
  assume a: "calls out \<noteq> []"
  note c = handler_calls_cases [OF a [unfolded out_def]]
  show "httpMethod req = ''POST''" using c by simp
  show "admitted env now store req" using c by simp
  show "\<exists>r. val = Inr r \<and> valid r" unfolding val_def using c by simp
  show "\<exists>k. ANTHROPIC_API_KEY env = Some k \<and> k \<noteq> []" using c by blast
qed

text \<open>The stages at concrete requests of the first version: 405, 429, 400, 500
  \<open>server_configuration_error\<close>, and the one outbound call.\<close>

lemma handler_stage_order_examples:
  "reply_status (sent (handler (\<lambda>x. Inr None) variant1
       \<lparr>ANTHROPIC_API_KEY = None, RATE_LIMIT_REQUESTS = 1, RATE_LIMIT_WINDOW_MS = 60000\<rparr>
       (\<lambda>b k. Inr \<lparr>status = 200, headers = [], data = JObj []\<rparr>) 5000
       [''unknown'' \<mapsto> \<lparr>count = 1, resetTime = 9000\<rparr>]
       \<lparr>httpMethod = ''GET'', xForwardedFor = None, remoteAddress = None, body = JUndefined\<rparr>)) =
     Some 405 \<and>
   reply_status (sent (handler (\<lambda>x. Inr None) variant1
       \<lparr>ANTHROPIC_API_KEY = None, RATE_LIMIT_REQUESTS = 1, RATE_LIMIT_WINDOW_MS = 60000\<rparr>
       (\<lambda>b k. Inr \<lparr>status = 200, headers = [], data = JObj []\<rparr>) 5000
       [''unknown'' \<mapsto> \<lparr>count = 1, resetTime = 9000\<rparr>]
       \<lparr>httpMethod = ''POST'', xForwardedFor = None, remoteAddress = None, body = JObj []\<rparr>)) =
     Some 429 \<and>
   reply_status (sent (handler (\<lambda>x. Inr None) variant1
       \<lparr>ANTHROPIC_API_KEY = None, RATE_LIMIT_REQUESTS = 1, RATE_LIMIT_WINDOW_MS = 60000\<rparr>
       (\<lambda>b k. Inr \<lparr>status = 200, headers = [], data = JObj []\<rparr>) 5000
       Map.empty
       \<lparr>httpMethod = ''POST'', xForwardedFor = None, remoteAddress = None, body = JObj []\<rparr>)) =
     Some 400 \<and>
   reply_status (sent (handler (\<lambda>x. Inr None) variant1
       \<lparr>ANTHROPIC_API_KEY = None, RATE_LIMIT_REQUESTS = 1, RATE_LIMIT_WINDOW_MS = 60000\<rparr>
       (\<lambda>b k. Inr \<lparr>status = 200, headers = [], data = JObj []\<rparr>) 5000
       Map.empty
       \<lparr>httpMethod = ''POST'', xForwardedFor = None, remoteAddress = None,
        body = JObj [(''model'', JStr ''claude-3-haiku-20240307''),
                     (''messages'', JArr [JObj [(''role'', JStr ''user''),
                                                (''content'', JStr ''Hi'')]])]\<rparr>)) =
     Some 500 \<and>
   calls (handler (\<lambda>x. Inr None) variant1
       \<lparr>ANTHROPIC_API_KEY = Some ''sk-ant-x'', RATE_LIMIT_REQUESTS = 1,
        RATE_LIMIT_WINDOW_MS = 60000\<rparr>
       (\<lambda>b k. Inr \<lparr>status = 200, headers = [], data = JObj []\<rparr>) 5000
       Map.empty
       \<lparr>httpMethod = ''POST'', xForwardedFor = None, remoteAddress = None,
        body = JObj [(''model'', JStr ''claude-3-haiku-20240307''),
                     (''messages'', JArr [JObj [(''role'', JStr ''user''),
                                                (''content'', JStr ''Hi'')]])]\<rparr>) =
     [(JObj [(''model'', JStr ''claude-3-haiku-20240307''),
             (''messages'', JArr [JObj [(''role'', JStr ''user''),
                                        (''content'', JStr ''Hi'')]])], ''sk-ant-x'')]"
proof -
  let ?tn = "\<lambda>x::jsval. Inr None :: js_error + rat option"
  let ?up = "\<lambda>(b::jsval) (k::string).
    Inr \<lparr>status = 200, headers = [], data = JObj []\<rparr> :: thrown + axios_response"
  let ?env = "\<lparr>ANTHROPIC_API_KEY = None, RATE_LIMIT_REQUESTS = 1, RATE_LIMIT_WINDOW_MS = 60000\<rparr>"
  let ?envk = "\<lparr>ANTHROPIC_API_KEY = Some ''sk-ant-x'', RATE_LIMIT_REQUESTS = 1,
        RATE_LIMIT_WINDOW_MS = 60000\<rparr>"
  let ?full = "[''unknown'' \<mapsto> \<lparr>count = 1, resetTime = 9000\<rparr>]"
  let ?good = "JObj [(''model'', JStr ''claude-3-haiku-20240307''),
                     (''messages'', JArr [JObj [(''role'', JStr ''user''),
                                                (''content'', JStr ''Hi'')]])]"
  let ?get = "\<lparr>httpMethod = ''GET'', xForwardedFor = None, remoteAddress = None, body = JUndefined\<rparr>"
  let ?bad = "\<lparr>httpMethod = ''POST'', xForwardedFor = None, remoteAddress = None, body = JObj []\<rparr>"
  let ?ok = "\<lparr>httpMethod = ''POST'', xForwardedFor = None, remoteAddress = None, body = ?good\<rparr>"
  note ev = admitted_def checkRateLimit_def js_add_exact clientIdOf_def str_or_def
    validateClaudeRequest_def check_model_def check_max_tokens_def variant1_def
    invalid_def ok_result_def
  have 1: "reply_status (sent (handler ?tn variant1 ?env ?up 5000 ?full ?get)) = Some 405"
    using handler_stage_order
      [where tn = ?tn and v = variant1 and env = ?env and upstream = ?up and now = 5000
         and store = ?full and req = ?get, THEN conjunct1]
    by simp
  have 2: "reply_status (sent (handler ?tn variant1 ?env ?up 5000 ?full ?bad)) = Some 429"
    using handler_stage_order
      [where tn = ?tn and v = variant1 and env = ?env and upstream = ?up and now = 5000
         and store = ?full and req = ?bad, THEN conjunct2, THEN conjunct1]
    by (simp add: ev)
  have 3: "reply_status (sent (handler ?tn variant1 ?env ?up 5000 Map.empty ?bad)) = Some 400"
    using handler_stage_order
      [where tn = ?tn and v = variant1 and env = ?env and upstream = ?up and now = 5000
         and store = Map.empty and req = ?bad, THEN conjunct2, THEN conjunct2, THEN conjunct1,
       THEN spec [where x = "invalid ''Missing or invalid 'messages' array''"]]
    by (simp add: ev)
  have 4: "reply_status (sent (handler ?tn variant1 ?env ?up 5000 Map.empty ?ok)) = Some 500"
    using handler_stage_order
      [where tn = ?tn and v = variant1 and env = ?env and upstream = ?up and now = 5000
         and store = Map.empty and req = ?ok,
       THEN conjunct2, THEN conjunct2, THEN conjunct2, THEN conjunct2, THEN conjunct1,
       THEN spec [where x = ok_result]]
    by (simp add: ev)
  have 5: "calls (handler ?tn variant1 ?envk ?up 5000 Map.empty ?ok) = [(?good, ''sk-ant-x'')]"
    using handler_stage_order
      [where tn = ?tn and v = variant1 and env = ?envk and upstream = ?up and now = 5000
         and store = Map.empty and req = ?ok,
       THEN conjunct2, THEN conjunct2, THEN conjunct2, THEN conjunct2, THEN conjunct2,
       THEN conjunct1, THEN spec [where x = ok_result], THEN spec [where x = "''sk-ant-x''"]]
    by (simp add: ev)
  from 1 2 3 4 5 show ?thesis by blast
qed

text \<open>
  \<^bold>\<open>Claim C5.\<close> The proxy handler answers a failed check with the corresponding error
  response and issues no outbound call; for the payload validation that response is 400
  \<open>invalid_request\<close>. The order of the checks and the answers to a failure that is
  returned are \<open>handler_stage_order\<close> above. In both versions an admitted POST whose
  body is \<open>undefined\<close> or \<open>null\<close>, or whose first message that does not pass the rules
  is \<open>null\<close>, fails the validation by a thrown \<open>TypeError\<close>: the handler answers 500
  \<open>internal_server_error\<close> with the generic message, logs the error, and issues no
  outbound call.
\<close>

theorem handler_thrown_validation_answers_500:
  fixes req :: request and env :: env and store :: rl_store and now :: int
    and tn :: "jsval \<Rightarrow> js_error + rat option" and v :: variant
    and upstream :: "jsval \<Rightarrow> string \<Rightarrow> thrown + axios_response"
  defines "out \<equiv> handler tn v env upstream now store req"
  shows
    "(httpMethod req = ''POST'' \<and> admitted env now store req \<and> nullish (body req) \<longrightarrow>
        sent out = Inr (generic_500 (cors new_response)) \<and>
        reply_status (sent out) = Some 500 \<and>
        reply_field (sent out) ''error'' = Some (JStr ''internal_server_error'') \<and>
        logged out = [unexpected_log v (JsError (cannot_read (body req) ''messages''))] \<and>
        calls out = []) \<and>
     (\<forall>pre m post. httpMethod req = ''POST'' \<and> admitted env now store req \<and>
        getp_opt (body req) ''messages'' = JArr (pre @ m # post) \<and>
        (\<forall>x \<in> set pre. message_ok x) \<and> nullish m \<longrightarrow>
        sent out = Inr (generic_500 (cors new_response)) \<and>
        reply_status (sent out) = Some 500 \<and>
        reply_field (sent out) ''error'' = Some (JStr ''internal_server_error'') \<and>
        logged out = [unexpected_log v (JsError (cannot_read m ''role''))] \<and>
        calls out = [])"
proof -
  have thrown: "sent out = Inr (generic_500 (cors new_response)) \<and>
        reply_status (sent out) = Some 500 \<and>
        reply_field (sent out) ''error'' = Some (JStr ''internal_server_error'') \<and>
        logged out = [unexpected_log v (JsError e)] \<and>
        calls out = []"
    if "httpMethod req = ''POST''" "admitted env now store req"
      "validateClaudeRequest tn v (body req) = Inl e" for e
  proof -
    have eq: "out = \<lparr>sent = Inr (generic_500 (cors new_response)),
        logged = [unexpected_log v (JsError e)],
        store_after = snd (checkRateLimit (RATE_LIMIT_REQUESTS env) (RATE_LIMIT_WINDOW_MS env)
                             now store (clientIdOf req)),
        calls = []\<rparr>"
      unfolding out_def using that by (rule handler_validator_throws)
    show ?thesis
      by (simp add: eq reply_status_def reply_field_def generic_500_def)
  qed
  have c1: "httpMethod req = ''POST'' \<and> admitted env now store req \<and> nullish (body req) \<longrightarrow>
        sent out = Inr (generic_500 (cors new_response)) \<and>
        reply_status (sent out) = Some 500 \<and>
        reply_field (sent out) ''error'' = Some (JStr ''internal_server_error'') \<and>
        logged out = [unexpected_log v (JsError (cannot_read (body req) ''messages''))] \<and>
        calls out = []"
  proof (rule impI)
    assume a: "httpMethod req = ''POST'' \<and> admitted env now store req \<and> nullish (body req)"
    then have "validateClaudeRequest tn v (body req) = Inl (cannot_read (body req) ''messages'')"
      by (simp add: validate_nullish_body)
    with a show "sent out = Inr (generic_500 (cors new_response)) \<and>
        reply_status (sent out) = Some 500 \<and>
        reply_field (sent out) ''error'' = Some (JStr ''internal_server_error'') \<and>
        logged out = [unexpected_log v (JsError (cannot_read (body req) ''messages''))] \<and>
        calls out = []"
      by (intro thrown) simp_all
  qed
  have c2: "\<forall>pre m post. httpMethod req = ''POST'' \<and> admitted env now store req \<and>
        getp_opt (body req) ''messages'' = JArr (pre @ m # post) \<and>
        (\<forall>x \<in> set pre. message_ok x) \<and> nullish m \<longrightarrow>
        sent out = Inr (generic_500 (cors new_response)) \<and>
        reply_status (sent out) = Some 500 \<and>
        reply_field (sent out) ''error'' = Some (JStr ''internal_server_error'') \<and>
        logged out = [unexpected_log v (JsError (cannot_read m ''role''))] \<and>
        calls out = []"
  proof (intro allI, rule impI)
    fix pre m post
    assume a: "httpMethod req = ''POST'' \<and> admitted env now store req \<and>
        getp_opt (body req) ''messages'' = JArr (pre @ m # post) \<and>
        (\<forall>x \<in> set pre. message_ok x) \<and> nullish m"
    then have nb: "\<not> nullish (body req)"
      using not_nullish_obj [of "body req" "''messages''" "pre @ m # post"] by simp
    have "check_messages (pre @ m # post) = Inl (cannot_read m ''role'')"
      using a by (intro check_messages_first_null) simp_all
    then have "validateClaudeRequest tn v (body req) = Inl (cannot_read m ''role'')"
      using a validate_messages_checked [OF nb, of "pre @ m # post" tn v] by simp
    with a show "sent out = Inr (generic_500 (cors new_response)) \<and>
        reply_status (sent out) = Some 500 \<and>
        reply_field (sent out) ''error'' = Some (JStr ''internal_server_error'') \<and>
        logged out = [unexpected_log v (JsError (cannot_read m ''role''))] \<and>
        calls out = []"
      by (intro thrown) simp_all
  qed
  from c1 c2 show ?thesis by (rule conjI)
qed

theorem handler_thrown_validation_answers_500_witness:
  "reply_status (sent (handler (\<lambda>x. Inr None) variant1
       \<lparr>ANTHROPIC_API_KEY = Some ''sk-ant-x'', RATE_LIMIT_REQUESTS = 100,
        RATE_LIMIT_WINDOW_MS = 60000\<rparr>
       (\<lambda>b k. Inr \<lparr>status = 200, headers = [], data = JObj []\<rparr>) 5000 Map.empty
       \<lparr>httpMethod = ''POST'', xForwardedFor = None, remoteAddress = None,
        body = JUndefined\<rparr>)) = Some 500 \<and>
   reply_field (sent (handler (\<lambda>x. Inr None) variant1
       \<lparr>ANTHROPIC_API_KEY = Some ''sk-ant-x'', RATE_LIMIT_REQUESTS = 100,
        RATE_LIMIT_WINDOW_MS = 60000\<rparr>
       (\<lambda>b k. Inr \<lparr>status = 200, headers = [], data = JObj []\<rparr>) 5000 Map.empty
       \<lparr>httpMethod = ''POST'', xForwardedFor = None, remoteAddress = None,
        body = JUndefined\<rparr>)) ''error'' = Some (JStr ''internal_server_error'') \<and>
   reply_status (sent (handler (\<lambda>x. Inr None) variant2
       \<lparr>ANTHROPIC_API_KEY = Some ''sk-ant-x'', RATE_LIMIT_REQUESTS = 100,
        RATE_LIMIT_WINDOW_MS = 60000\<rparr>
       (\<lambda>b k. Inr \<lparr>status = 200, headers = [], data = JObj []\<rparr>) 5000 Map.empty
       \<lparr>httpMethod = ''POST'', xForwardedFor = None, remoteAddress = None,
        body = JObj [(''model'', JStr ''claude-3-haiku-20240307''),
                     (''messages'', JArr [JNull])]\<rparr>)) = Some 500 \<and>
   calls (handler (\<lambda>x. Inr None) variant2
       \<lparr>ANTHROPIC_API_KEY = Some ''sk-ant-x'', RATE_LIMIT_REQUESTS = 100,
        RATE_LIMIT_WINDOW_MS = 60000\<rparr>
       (\<lambda>b k. Inr \<lparr>status = 200, headers = [], data = JObj []\<rparr>) 5000 Map.empty
       \<lparr>httpMethod = ''POST'', xForwardedFor = None, remoteAddress = None,
        body = JObj [(''model'', JStr ''claude-3-haiku-20240307''),
                     (''messages'', JArr [JNull])]\<rparr>) = []"
proof -
  let ?tn = "\<lambda>x::jsval. Inr None :: js_error + rat option"
  let ?up = "\<lambda>(b::jsval) (k::string).
    Inr \<lparr>status = 200, headers = [], data = JObj []\<rparr> :: thrown + axios_response"
  let ?envk = "\<lparr>ANTHROPIC_API_KEY = Some ''sk-ant-x'', RATE_LIMIT_REQUESTS = 100,
        RATE_LIMIT_WINDOW_MS = 60000\<rparr>"
  let ?nobody = "\<lparr>httpMethod = ''POST'', xForwardedFor = None, remoteAddress = None,
        body = JUndefined\<rparr>"
  let ?nullmsg = "\<lparr>httpMethod = ''POST'', xForwardedFor = None, remoteAddress = None,
        body = JObj [(''model'', JStr ''claude-3-haiku-20240307''),
                     (''messages'', JArr [JNull])]\<rparr>"
  note ev = admitted_def checkRateLimit_def js_add_exact clientIdOf_def str_or_def nullish_def
    getp_opt_def reply_status_def reply_field_def generic_500_def
  have 1: "reply_status (sent (handler ?tn variant1 ?envk ?up 5000 Map.empty ?nobody)) = Some 500 \<and>
      reply_field (sent (handler ?tn variant1 ?envk ?up 5000 Map.empty ?nobody)) ''error'' =
        Some (JStr ''internal_server_error'')"
    using handler_thrown_validation_answers_500
      [where tn = ?tn and v = variant1 and env = ?envk and upstream = ?up and now = 5000
         and store = Map.empty and req = ?nobody, THEN conjunct1]
    by (simp add: ev)
  have 2: "reply_status (sent (handler ?tn variant2 ?envk ?up 5000 Map.empty ?nullmsg)) = Some 500 \<and>
      calls (handler ?tn variant2 ?envk ?up 5000 Map.empty ?nullmsg) = []"
    using handler_thrown_validation_answers_500
      [where tn = ?tn and v = variant2 and env = ?envk and upstream = ?up and now = 5000
         and store = Map.empty and req = ?nullmsg, THEN conjunct2,
       THEN spec [where x = "[]"], THEN spec [where x = JNull], THEN spec [where x = "[]"]]
    by (simp add: ev)
  from 1 2 show ?thesis by blast
qed

section \<open>Properties of the streaming handler\<close>

lemma chunks_write_chunks:
  "chunks (write_chunks fs res) = chunks res @ map (\<lambda>f. ''data: '' @ f @ ''\<newline>\<newline>'') fs"
  by (induction fs arbitrary: res) (simp_all add: res_write_def)

lemma write_chunks_other:
  "statusCode (write_chunks fs res) = statusCode res"
  "jsonBody (write_chunks fs res) = jsonBody res"
  "ended (write_chunks fs res) = ended res"
  "resHeaders (write_chunks fs res) = resHeaders res"
  by (induction fs arbitrary: res) (simp_all add: res_write_def)

lemma toPropertyKey_string: "toPropertyKey tk (JStr s) = Inr s"
  by (simp add: toPropertyKey_def)

lemma stream_ready_key:
  "stream_ready tk req \<Longrightarrow> \<exists>key. toPropertyKey tk (getp_opt (body req) ''model'') = Inr key"
  by (auto simp: stream_ready_def split: sum.splits)

lemma stream_ready_string_model:
  "httpMethod req = ''POST'' \<Longrightarrow> getp_opt (body req) ''model'' = JStr s \<Longrightarrow> s \<noteq> [] \<Longrightarrow>
   truthy (getp_opt (body req) ''messages'') \<Longrightarrow> stream_ready tk req"
  by (auto simp: stream_ready_def toPropertyKey_string nullish_def getp_opt_def)

lemma stream_ready_destructure:
  "stream_ready tk req \<Longrightarrow>
   destructure (body req) =
     Inr (getp_opt (body req) ''model'', getp_opt (body req) ''messages'',
          (if getp_opt (body req) ''maxTokens'' = JUndefined then JNum 4096
           else getp_opt (body req) ''maxTokens''))"
  by (simp add: stream_ready_def destructure_def nullish_def)

lemma call_of_ready: "stream_ready tk req \<Longrightarrow> length (call_of tk req) = 1"
  using stream_ready_key [of tk req] by (auto simp: call_of_def)

lemma handler_stream_ready:
  assumes "stream_ready tk req"
  shows "handler_stream tk env provider req =
    (if key_rejected env then
       (json (JObj [(''error'', JStr ''ANTHROPIC_API_KEY not configured'')])
          (set_status 500 (cors_stream new_response)), [])
     else
       (case provider of
          Inl e \<Rightarrow> (stream_catch e (cors_stream new_response), call_of tk req)
        | Inr (fragments, failure) \<Rightarrow>
            (case failure of
               None \<Rightarrow>
                 (end_response (res_write ''data: [DONE]\<newline>\<newline>''
                    (write_chunks fragments (sse_headers (cors_stream new_response)))),
                  call_of tk req)
             | Some e \<Rightarrow>
                 (stream_catch e
                    (write_chunks fragments (sse_headers (cors_stream new_response))),
                  call_of tk req))))"
proof -
  have m: "httpMethod req = ''POST''" "truthy (getp_opt (body req) ''model'')"
    "truthy (getp_opt (body req) ''messages'')"
    using assms by (simp_all add: stream_ready_def)
  obtain key where k: "toPropertyKey tk (getp_opt (body req) ''model'') = Inr key"
    using stream_ready_key [OF assms] by blast
  show ?thesis
    unfolding handler_stream_def stream_ready_destructure [OF assms] Let_def call_of_def
    using m k by (simp split: sum.splits option.splits prod.splits)
qed

text \<open>A truthy \<open>model\<close> whose conversion to a property key throws ends in the \<open>catch\<close>
  block before the credential is looked at, and the provider is not called.\<close>

lemma handler_stream_key_throws:
  assumes "httpMethod req = ''POST''" "\<not> nullish (body req)"
    "truthy (getp_opt (body req) ''model'')" "truthy (getp_opt (body req) ''messages'')"
    "toPropertyKey tk (getp_opt (body req) ''model'') = Inl e"
  shows "handler_stream tk env provider req = (stream_catch e (cors_stream new_response), [])"
  using assms by (simp add: handler_stream_def destructure_def nullish_def Let_def)

lemma fresh_fields:
  "chunks (sse_headers (cors_stream new_response)) = []"
  "statusCode (sse_headers (cors_stream new_response)) = 200"
  "jsonBody (sse_headers (cors_stream new_response)) = None"
  "ended (sse_headers (cors_stream new_response)) = False"
  "chunks (cors_stream new_response) = []"
  "ended (cors_stream new_response) = False"
  by (simp_all add: sse_headers_def cors_stream_def setHeader_def new_response_def)

text \<open>
  \<^bold>\<open>Claim C4.\<close> When the provider's stream delivers the fragments \<open>f1, ..., fn\<close> and then
  completes, the streaming handler writes to the caller exactly \<open>data: f1\n\n\<close>, ...,
  \<open>data: fn\n\n\<close>, \<open>data: [DONE]\n\n\<close>, in the order received and nothing else, with status
  200 and the event-stream content type, after one call to the provider; for the fragments
  \<open>He\<close>, \<open>llo\<close> these are \<open>data: He\n\n\<close>, \<open>data: llo\n\n\<close>, \<open>data: [DONE]\n\n\<close>. The
  stream is opened for a POST whose body has \<open>model\<close> and \<open>messages\<close>, the lookup of
  \<open>model\<close> in \<open>modelMap\<close> not throwing (it never does for a string), when the credential
  starts with \<open>sk-ant-\<close>.
\<close>

theorem handler_stream_relays_in_order:
  "(stream_ready tk req \<and> \<not> key_rejected env \<longrightarrow>
      chunks (fst (handler_stream tk env (Inr (fs, None)) req)) =
        map (\<lambda>f. ''data: '' @ f @ ''\<newline>\<newline>'') fs @ [''data: [DONE]\<newline>\<newline>''] \<and>
      statusCode (fst (handler_stream tk env (Inr (fs, None)) req)) = 200 \<and>
      jsonBody (fst (handler_stream tk env (Inr (fs, None)) req)) = None \<and>
      ended (fst (handler_stream tk env (Inr (fs, None)) req)) \<and>
      header_of (fst (handler_stream tk env (Inr (fs, None)) req)) ''Content-Type'' =
        Some ''text/event-stream'' \<and>
      snd (handler_stream tk env (Inr (fs, None)) req) = call_of tk req \<and>
      length (snd (handler_stream tk env (Inr (fs, None)) req)) = 1) \<and>
   (stream_ready tk req \<and> \<not> key_rejected env \<longrightarrow>
      chunks (fst (handler_stream tk env (Inr ([''He'', ''llo''], None)) req)) =
        [''data: He\<newline>\<newline>'', ''data: llo\<newline>\<newline>'', ''data: [DONE]\<newline>\<newline>''])"
proof (intro conjI impI)
  assume a: "stream_ready tk req \<and> \<not> key_rejected env"
  then have eq: "\<And>gs. handler_stream tk env (Inr (gs, None)) req =
      (end_response (res_write ''data: [DONE]\<newline>\<newline>''
         (write_chunks gs (sse_headers (cors_stream new_response)))), call_of tk req)"
    by (simp add: handler_stream_ready)
  show "chunks (fst (handler_stream tk env (Inr (fs, None)) req)) =
        map (\<lambda>f. ''data: '' @ f @ ''\<newline>\<newline>'') fs @ [''data: [DONE]\<newline>\<newline>'']"
    by (simp add: eq end_response_def res_write_def chunks_write_chunks fresh_fields)
  show "statusCode (fst (handler_stream tk env (Inr (fs, None)) req)) = 200"
    by (simp add: eq end_response_def res_write_def write_chunks_other fresh_fields)
  show "jsonBody (fst (handler_stream tk env (Inr (fs, None)) req)) = None"
    by (simp add: eq end_response_def res_write_def write_chunks_other fresh_fields)
  show "ended (fst (handler_stream tk env (Inr (fs, None)) req))"
    by (simp add: eq end_response_def)
  show "header_of (fst (handler_stream tk env (Inr (fs, None)) req)) ''Content-Type'' =
        Some ''text/event-stream''"
    by (simp add: eq end_response_def res_write_def write_chunks_other header_of_def
        sse_headers_def cors_stream_def setHeader_def new_response_def)
  show "snd (handler_stream tk env (Inr (fs, None)) req) = call_of tk req"
    by (simp add: eq)
  show "length (snd (handler_stream tk env (Inr (fs, None)) req)) = 1"
    using a by (simp add: eq call_of_ready)
  show "chunks (fst (handler_stream tk env (Inr ([''He'', ''llo''], None)) req)) =
        [''data: He\<newline>\<newline>'', ''data: llo\<newline>\<newline>'', ''data: [DONE]\<newline>\<newline>'']"
    by (simp add: eq end_response_def res_write_def chunks_write_chunks fresh_fields)
qed

theorem handler_stream_relays_in_order_witness:
  "chunks (fst (handler_stream (\<lambda>x. Inr ''[object Object]'')
      \<lparr>ANTHROPIC_API_KEY = Some ''sk-ant-api03-x'', RATE_LIMIT_REQUESTS = 100,
       RATE_LIMIT_WINDOW_MS = 60000\<rparr>
      (Inr ([''He'', ''llo''], None))
      \<lparr>httpMethod = ''POST'', xForwardedFor = None, remoteAddress = None,
       body = JObj [(''model'', JStr ''claude-sonnet-4-5-20250929''),
                    (''messages'', JArr [JObj [(''role'', JStr ''user''),
                                               (''content'', JStr ''Hi'')]])]\<rparr>)) =
     [''data: He\<newline>\<newline>'', ''data: llo\<newline>\<newline>'', ''data: [DONE]\<newline>\<newline>'']"
proof -
  let ?tk = "\<lambda>x::jsval. Inr ''[object Object]'' :: js_error + string"
  let ?env = "\<lparr>ANTHROPIC_API_KEY = Some ''sk-ant-api03-x'', RATE_LIMIT_REQUESTS = 100,
       RATE_LIMIT_WINDOW_MS = 60000\<rparr>"
  let ?req = "\<lparr>httpMethod = ''POST'', xForwardedFor = None, remoteAddress = None,
       body = JObj [(''model'', JStr ''claude-sonnet-4-5-20250929''),
                    (''messages'', JArr [JObj [(''role'', JStr ''user''),
                                               (''content'', JStr ''Hi'')]])]\<rparr>"
  have ready: "stream_ready ?tk ?req \<and> \<not> key_rejected ?env"
    by (simp add: stream_ready_def toPropertyKey_def key_rejected_def startsWith_def
        nullish_def getp_opt_def)
  from handler_stream_relays_in_order
    [where tk = ?tk and req = ?req and env = ?env, THEN conjunct2, THEN mp, OF ready]
  show ?thesis .
qed

lemma headersSent_fresh: "headersSent (cors_stream new_response) = False"
  by (simp add: headersSent_def fresh_fields)

lemma headersSent_sse_fresh: "headersSent (sse_headers (cors_stream new_response)) = False"
  by (simp add: headersSent_def fresh_fields)

lemma headersSent_written:
  "headersSent (write_chunks (f # fs) (sse_headers (cors_stream new_response)))"
  by (simp add: headersSent_def chunks_write_chunks write_chunks_other res_write_def)

lemma stream_catch_unsent:
  "\<not> headersSent res \<Longrightarrow>
   stream_catch e res =
     json (JObj
       [(''error'', JStr (if emessage e = [] then ''Internal server error'' else emessage e)),
        (''details'', JStr (toString e))])
       (set_status 500 res)"
  by (simp add: stream_catch_def)

lemma handler_stream_nullish_body:
  "httpMethod req = ''POST'' \<Longrightarrow> nullish (body req) \<Longrightarrow>
   handler_stream tk env provider req =
     (stream_catch (cannot_destructure (body req)) (cors_stream new_response), [])"
  by (auto simp: handler_stream_def destructure_def nullish_def Let_def)




text \<open>
  \<^bold>\<open>Claim C8.\<close> In the proxy handler (both versions) every unclassified failure (an
  exception that is no axios error, such as the \<open>TypeError\<close> of the validator or an
  exception out of the outbound call, and an axios error without response whose code is
  none of \<open>ECONNABORTED\<close>, \<open>ECONNREFUSED\<close>, \<open>ENOTFOUND\<close>) is logged and answered with
  exactly status 500 and the body \<open>{error: "internal_server_error", message: "An
  unexpected error occurred while proxying your request"}\<close>; nothing of the exception
  is in the response. In the streaming handler an exception before the first written
  chunk is answered with status 500 and the body \<open>{error, details}\<close>, the exception's own
  message (\<open>Internal server error\<close> when it is empty) and its string form; after the first
  chunk the response is ended as it is. The agent handler answers an exception with status
  500 and the body \<open>{error, details, stack}\<close>, which adds the exception's stack.
\<close>

theorem unclassified_failures:
  fixes req :: request and env :: env and store :: rl_store and now :: int
    and tn :: "jsval \<Rightarrow> js_error + rat option" and v :: variant
    and tk :: "jsval \<Rightarrow> js_error + string"
    and upstream :: "jsval \<Rightarrow> string \<Rightarrow> thrown + axios_response"
    and provider :: provider_answer
    and e :: js_error and res :: response and trace :: string and b :: jsval
  defines "out \<equiv> handler tn v env upstream now store req"
    and "val \<equiv> validateClaudeRequest tn v (body req)"
    and "echo \<equiv> JObj
       [(''error'', JStr (if emessage e = [] then ''Internal server error'' else emessage e)),
        (''details'', JStr (toString e))]"
    and "echo_stack \<equiv> \<lparr>wstatus = 500, wheaders = json_headers,
       wbody = JsonBody (JObj
         [(''error'', JStr (if emessage e = [] then ''Internal server error'' else emessage e)),
          (''details'', JStr (toString e)),
          (''stack'', JStr trace)])\<rparr>"
  shows
    "handleProxyError v (JsError e) res =
       ([unexpected_log v (JsError e)], Inr (generic_500 res)) \<and>
     statusCode (generic_500 res) = 500 \<and>
     jsonBody (generic_500 res) = Some (JObj
       [(''error'', JStr ''internal_server_error''),
        (''message'', JStr ''An unexpected error occurred while proxying your request'')]) \<and>
     (code \<noteq> Some ''ECONNABORTED'' \<and> code \<noteq> Some ''ECONNREFUSED'' \<and>
      code \<noteq> Some ''ENOTFOUND'' \<longrightarrow>
        handleProxyError v (AxiosError None code) res =
          ([unexpected_log v (AxiosError None code)], Inr (generic_500 res))) \<and>
     (httpMethod req = ''POST'' \<and> admitted env now store req \<and> val = Inl e \<longrightarrow>
        sent out = Inr (generic_500 (cors new_response)) \<and>
        logged out = [unexpected_log v (JsError e)] \<and>
        calls out = []) \<and>
     (\<forall>r k. httpMethod req = ''POST'' \<and> admitted env now store req \<and> val = Inr r \<and> valid r \<and>
          ANTHROPIC_API_KEY env = Some k \<and> k \<noteq> [] \<and>
          upstream (body req) k = Inl (JsError e) \<longrightarrow>
        sent out = Inr (generic_500 (cors new_response)) \<and>
        logged out = [unexpected_log v (JsError e)]) \<and>
     (stream_ready tk req \<and> \<not> key_rejected env \<longrightarrow>
        fst (handler_stream tk env (Inl e) req) =
          json echo (set_status 500 (cors_stream new_response))) \<and>
     (stream_ready tk req \<and> \<not> key_rejected env \<longrightarrow>
        fst (handler_stream tk env (Inr ([], Some e)) req) =
          json echo (set_status 500 (sse_headers (cors_stream new_response)))) \<and>
     (stream_ready tk req \<and> \<not> key_rejected env \<longrightarrow>
        fst (handler_stream tk env (Inr (f # fs, Some e)) req) =
          end_response (write_chunks (f # fs) (sse_headers (cors_stream new_response))) \<and>
        statusCode (fst (handler_stream tk env (Inr (f # fs, Some e)) req)) = 200 \<and>
        jsonBody (fst (handler_stream tk env (Inr (f # fs, Some e)) req)) = None \<and>
        chunks (fst (handler_stream tk env (Inr (f # fs, Some e)) req)) =
          map (\<lambda>f. ''data: '' @ f @ ''\<newline>\<newline>'') (f # fs)) \<and>
     (httpMethod req = ''POST'' \<and> \<not> nullish (body req) \<and>
      truthy (getp_opt (body req) ''model'') \<and> truthy (getp_opt (body req) ''messages'') \<and>
      toPropertyKey tk (getp_opt (body req) ''model'') = Inl e \<longrightarrow>
        handler_stream tk env provider req =
          (json echo (set_status 500 (cors_stream new_response)), [])) \<and>
     handler_agent st ''POST'' (Inl (e, trace)) run = echo_stack \<and>
     (\<not> nullish b \<and> truthy (getp_opt b ''userPrompt'') \<longrightarrow>
        handler_agent st ''POST'' (Inr b) (Inl (e, trace)) = echo_stack)"
proof -
  have c1: "handleProxyError v (JsError e) res =
       ([unexpected_log v (JsError e)], Inr (generic_500 res))"
    by (rule handleProxyError_other)
  have c2: "statusCode (generic_500 res) = 500"
    by (simp add: generic_500_def)
  have c3: "jsonBody (generic_500 res) = Some (JObj
       [(''error'', JStr ''internal_server_error''),
        (''message'', JStr ''An unexpected error occurred while proxying your request'')])"
    by (simp add: generic_500_def json_def)
  have c4: "code \<noteq> Some ''ECONNABORTED'' \<and> code \<noteq> Some ''ECONNREFUSED'' \<and>
      code \<noteq> Some ''ENOTFOUND'' \<longrightarrow>
        handleProxyError v (AxiosError None code) res =
          ([unexpected_log v (AxiosError None code)], Inr (generic_500 res))"
    by (simp add: handleProxyError_unknown_code)
  have c5: "httpMethod req = ''POST'' \<and> admitted env now store req \<and> val = Inl e \<longrightarrow>
        sent out = Inr (generic_500 (cors new_response)) \<and>
        logged out = [unexpected_log v (JsError e)] \<and>
        calls out = []"
  proof (rule impI)
    assume a: "httpMethod req = ''POST'' \<and> admitted env now store req \<and> val = Inl e"
    have "out = \<lparr>sent = Inr (generic_500 (cors new_response)),
        logged = [unexpected_log v (JsError e)],
        store_after = snd (checkRateLimit (RATE_LIMIT_REQUESTS env) (RATE_LIMIT_WINDOW_MS env)
                             now store (clientIdOf req)),
        calls = []\<rparr>"
      unfolding out_def using a [unfolded val_def] by (intro handler_validator_throws) simp_all
    then show "sent out = Inr (generic_500 (cors new_response)) \<and>
        logged out = [unexpected_log v (JsError e)] \<and>
        calls out = []"
      by simp
  qed
  have c6: "\<forall>r k. httpMethod req = ''POST'' \<and> admitted env now store req \<and> val = Inr r \<and>
          valid r \<and> ANTHROPIC_API_KEY env = Some k \<and> k \<noteq> [] \<and>
          upstream (body req) k = Inl (JsError e) \<longrightarrow>
        sent out = Inr (generic_500 (cors new_response)) \<and>
        logged out = [unexpected_log v (JsError e)]"
  proof (intro allI, rule impI)
    fix r k
    assume a: "httpMethod req = ''POST'' \<and> admitted env now store req \<and> val = Inr r \<and>
          valid r \<and> ANTHROPIC_API_KEY env = Some k \<and> k \<noteq> [] \<and>
          upstream (body req) k = Inl (JsError e)"
    have "out = caught v (JsError e) (cors new_response)
            (snd (checkRateLimit (RATE_LIMIT_REQUESTS env) (RATE_LIMIT_WINDOW_MS env)
                    now store (clientIdOf req)))
            [(body req, k)]"
      unfolding out_def
      using a [unfolded val_def] handler_forwards [of req env now store tn v r k upstream]
      by simp
    then show "sent out = Inr (generic_500 (cors new_response)) \<and>
        logged out = [unexpected_log v (JsError e)]"
      by (simp add: handleProxyError_other)
  qed
  have c7: "stream_ready tk req \<and> \<not> key_rejected env \<longrightarrow>
        fst (handler_stream tk env (Inl e) req) =
          json echo (set_status 500 (cors_stream new_response))"
    by (simp add: handler_stream_ready stream_catch_unsent headersSent_fresh echo_def)
  have c8: "stream_ready tk req \<and> \<not> key_rejected env \<longrightarrow>
        fst (handler_stream tk env (Inr ([], Some e)) req) =
          json echo (set_status 500 (sse_headers (cors_stream new_response)))"
    by (simp add: handler_stream_ready stream_catch_unsent headersSent_sse_fresh echo_def)
  have c9: "stream_ready tk req \<and> \<not> key_rejected env \<longrightarrow>
        fst (handler_stream tk env (Inr (f # fs, Some e)) req) =
          end_response (write_chunks (f # fs) (sse_headers (cors_stream new_response))) \<and>
        statusCode (fst (handler_stream tk env (Inr (f # fs, Some e)) req)) = 200 \<and>
        jsonBody (fst (handler_stream tk env (Inr (f # fs, Some e)) req)) = None \<and>
        chunks (fst (handler_stream tk env (Inr (f # fs, Some e)) req)) =
          map (\<lambda>f. ''data: '' @ f @ ''\<newline>\<newline>'') (f # fs)"
  proof (rule impI)
    assume a: "stream_ready tk req \<and> \<not> key_rejected env"
    have s3: "handler_stream tk env (Inr (f # fs, Some e)) req =
        (end_response (write_chunks (f # fs) (sse_headers (cors_stream new_response))),
         call_of tk req)"
      using a headersSent_written [of f fs]
      by (simp add: handler_stream_ready stream_catch_def del: write_chunks.simps)
    show "fst (handler_stream tk env (Inr (f # fs, Some e)) req) =
          end_response (write_chunks (f # fs) (sse_headers (cors_stream new_response))) \<and>
        statusCode (fst (handler_stream tk env (Inr (f # fs, Some e)) req)) = 200 \<and>
        jsonBody (fst (handler_stream tk env (Inr (f # fs, Some e)) req)) = None \<and>
        chunks (fst (handler_stream tk env (Inr (f # fs, Some e)) req)) =
          map (\<lambda>f. ''data: '' @ f @ ''\<newline>\<newline>'') (f # fs)"
      by (simp add: s3 end_response_def write_chunks_other chunks_write_chunks
          fresh_fields del: write_chunks.simps)
  qed
  have c10: "httpMethod req = ''POST'' \<and> \<not> nullish (body req) \<and>
      truthy (getp_opt (body req) ''model'') \<and> truthy (getp_opt (body req) ''messages'') \<and>
      toPropertyKey tk (getp_opt (body req) ''model'') = Inl e \<longrightarrow>
        handler_stream tk env provider req =
          (json echo (set_status 500 (cors_stream new_response)), [])"
    by (simp add: handler_stream_key_throws stream_catch_unsent headersSent_fresh echo_def)
  have c11: "handler_agent st ''POST'' (Inl (e, trace)) run = echo_stack"
    by (simp add: handler_agent_def agent_catch_def echo_stack_def)
  have c12: "\<not> nullish b \<and> truthy (getp_opt b ''userPrompt'') \<longrightarrow>
        handler_agent st ''POST'' (Inr b) (Inl (e, trace)) = echo_stack"
    by (simp add: handler_agent_def agent_catch_def echo_stack_def nullish_def)
  show ?thesis
    by (intro conjI) (rule c1 c2 c3 c4 c5 c6 c7 c8 c9 c10 c11 c12)+
qed

theorem unclassified_failures_witness:
  "handleProxyError variant2 (AxiosError None (Some ''ERR_NETWORK'')) new_response =
     ([unexpected_log variant2 (AxiosError None (Some ''ERR_NETWORK''))],
      Inr (generic_500 new_response)) \<and>
   sent (handler (\<lambda>x. Inr None) variant1
       \<lparr>ANTHROPIC_API_KEY = Some ''sk-ant-x'', RATE_LIMIT_REQUESTS = 100,
        RATE_LIMIT_WINDOW_MS = 60000\<rparr>
       (\<lambda>b k. Inr \<lparr>status = 200, headers = [], data = JObj []\<rparr>) 5000 Map.empty
       \<lparr>httpMethod = ''POST'', xForwardedFor = None, remoteAddress = None,
        body = JUndefined\<rparr>) = Inr (generic_500 (cors new_response)) \<and>
   body_field (fst (handler_stream (\<lambda>x. Inr ''[object Object]'')
       \<lparr>ANTHROPIC_API_KEY = Some ''sk-ant-x'', RATE_LIMIT_REQUESTS = 100,
        RATE_LIMIT_WINDOW_MS = 60000\<rparr>
       (Inl \<lparr>ename = ''Error'', emessage = ''boom''\<rparr>)
       \<lparr>httpMethod = ''POST'', xForwardedFor = None, remoteAddress = None,
        body = JObj [(''model'', JStr ''claude-3-haiku-20240307''),
                     (''messages'', JArr [JObj [(''role'', JStr ''user''),
                                                (''content'', JStr ''Hi'')]])]\<rparr>)) ''details'' =
     Some (JStr ''Error: boom'') \<and>
   wstatus (handler_agent ''TypeError: x at handler'' ''POST''
       (Inr (JObj [(''userPrompt'', JStr ''Check this design'')]))
       (Inl (\<lparr>ename = ''Error'', emessage = ''boom''\<rparr>, ''Error: boom at streamText''))) = 500"
proof -
  let ?tn = "\<lambda>x::jsval. Inr None :: js_error + rat option"
  let ?tk = "\<lambda>x::jsval. Inr ''[object Object]'' :: js_error + string"
  let ?up = "\<lambda>(b::jsval) (k::string).
    Inr \<lparr>status = 200, headers = [], data = JObj []\<rparr> :: thrown + axios_response"
  let ?envk = "\<lparr>ANTHROPIC_API_KEY = Some ''sk-ant-x'', RATE_LIMIT_REQUESTS = 100,
        RATE_LIMIT_WINDOW_MS = 60000\<rparr>"
  let ?good = "JObj [(''model'', JStr ''claude-3-haiku-20240307''),
                     (''messages'', JArr [JObj [(''role'', JStr ''user''),
                                                (''content'', JStr ''Hi'')]])]"
  let ?ok = "\<lparr>httpMethod = ''POST'', xForwardedFor = None, remoteAddress = None, body = ?good\<rparr>"
  let ?nobody = "\<lparr>httpMethod = ''POST'', xForwardedFor = None, remoteAddress = None,
        body = JUndefined\<rparr>"
  let ?e = "cannot_read JUndefined ''messages''"
  let ?boom = "\<lparr>ename = ''Error'', emessage = ''boom''\<rparr>"
  let ?prompt = "JObj [(''userPrompt'', JStr ''Check this design'')]"
  note ev = admitted_def checkRateLimit_def js_add_exact clientIdOf_def str_or_def
    validateClaudeRequest_def stream_ready_def toPropertyKey_def nullish_def getp_opt_def
    startsWith_def key_rejected_def toString_def
  have 1: "handleProxyError variant2 (AxiosError None (Some ''ERR_NETWORK'')) new_response =
     ([unexpected_log variant2 (AxiosError None (Some ''ERR_NETWORK''))],
      Inr (generic_500 new_response))"
    using unclassified_failures
      [where v = variant2 and code = "Some ''ERR_NETWORK''" and res = new_response,
       THEN conjunct2, THEN conjunct2, THEN conjunct2, THEN conjunct1]
    by simp
  have 2: "sent (handler ?tn variant1 ?envk ?up 5000 Map.empty ?nobody) =
      Inr (generic_500 (cors new_response))"
    using unclassified_failures
      [where tn = ?tn and v = variant1 and env = ?envk and upstream = ?up and now = 5000
         and store = Map.empty and req = ?nobody and e = ?e,
       THEN conjunct2, THEN conjunct2, THEN conjunct2, THEN conjunct2, THEN conjunct1]
    by (simp add: ev)
  have 3: "body_field (fst (handler_stream ?tk ?envk (Inl ?boom) ?ok)) ''details'' =
      Some (JStr ''Error: boom'')"
    using unclassified_failures
      [where tk = ?tk and env = ?envk and req = ?ok and e = ?boom,
       THEN conjunct2, THEN conjunct2, THEN conjunct2, THEN conjunct2, THEN conjunct2,
       THEN conjunct2, THEN conjunct1]
    by (simp add: ev)
  have 4: "wstatus (handler_agent ''TypeError: x at handler'' ''POST'' (Inr ?prompt)
       (Inl (?boom, ''Error: boom at streamText''))) = 500"
    using unclassified_failures
      [where b = ?prompt and e = ?boom and trace = "''Error: boom at streamText''"
         and st = "''TypeError: x at handler''",
       THEN conjunct2, THEN conjunct2, THEN conjunct2, THEN conjunct2, THEN conjunct2,
       THEN conjunct2, THEN conjunct2, THEN conjunct2, THEN conjunct2, THEN conjunct2,
       THEN conjunct2]
    by (simp add: ev)
  from 1 2 3 4 show ?thesis by blast
qed

theorem unclassified_failures_counterexample:
  "statusCode (fst (handler_stream (\<lambda>x. Inr ''[object Object]'')
       \<lparr>ANTHROPIC_API_KEY = Some ''sk-ant-x'', RATE_LIMIT_REQUESTS = 100,
        RATE_LIMIT_WINDOW_MS = 60000\<rparr>
       (Inl \<lparr>ename = ''Error'', emessage = ''connect ECONNREFUSED 10.0.0.5:443''\<rparr>)
       \<lparr>httpMethod = ''POST'', xForwardedFor = None, remoteAddress = None,
        body = JObj [(''model'', JStr ''claude-3-haiku-20240307''),
                     (''messages'', JArr [JObj [(''role'', JStr ''user''),
                                                (''content'', JStr ''Hi'')]])]\<rparr>)) = 500 \<and>
   body_field (fst (handler_stream (\<lambda>x. Inr ''[object Object]'')
       \<lparr>ANTHROPIC_API_KEY = Some ''sk-ant-x'', RATE_LIMIT_REQUESTS = 100,
        RATE_LIMIT_WINDOW_MS = 60000\<rparr>
       (Inl \<lparr>ename = ''Error'', emessage = ''connect ECONNREFUSED 10.0.0.5:443''\<rparr>)
       \<lparr>httpMethod = ''POST'', xForwardedFor = None, remoteAddress = None,
        body = JObj [(''model'', JStr ''claude-3-haiku-20240307''),
                     (''messages'', JArr [JObj [(''role'', JStr ''user''),
                                                (''content'', JStr ''Hi'')]])]\<rparr>)) ''error'' =
     Some (JStr ''connect ECONNREFUSED 10.0.0.5:443'') \<and>
   body_field (fst (handler_stream (\<lambda>x. Inr ''[object Object]'')
       \<lparr>ANTHROPIC_API_KEY = Some ''sk-ant-x'', RATE_LIMIT_REQUESTS = 100,
        RATE_LIMIT_WINDOW_MS = 60000\<rparr>
       (Inl \<lparr>ename = ''Error'', emessage = ''connect ECONNREFUSED 10.0.0.5:443''\<rparr>)
       \<lparr>httpMethod = ''POST'', xForwardedFor = None, remoteAddress = None,
        body = JObj [(''model'', JStr ''claude-3-haiku-20240307''),
                     (''messages'', JArr [JObj [(''role'', JStr ''user''),
                                                (''content'', JStr ''Hi'')]])]\<rparr>)) ''details'' =
     Some (JStr ''Error: connect ECONNREFUSED 10.0.0.5:443'') \<and>
   wbody (handler_agent ''TypeError: x at handler'' ''POST''
       (Inr (JObj [(''userPrompt'', JStr ''Check this design'')]))
       (Inl (\<lparr>ename = ''Error'', emessage = ''boom''\<rparr>,
             ''Error: boom at streamText (/var/task/api/agent.js:61:20)''))) =
     JsonBody (JObj
       [(''error'', JStr ''boom''), (''details'', JStr ''Error: boom''),
        (''stack'', JStr ''Error: boom at streamText (/var/task/api/agent.js:61:20)'')])"
  by (simp add: handler_stream_def Let_def destructure_def getp_opt_def toPropertyKey_def
      key_rejected_def startsWith_def stream_catch_def headersSent_def cors_stream_def
      setHeader_def new_response_def set_status_def json_def body_field_def toString_def
      handler_agent_def agent_catch_def)

end
